theory Spec2Isabelle
  imports Complex_Main "HOL-Library.Multiset"
begin

section \<open>Python values\<close>

text \<open>
  The builders of \<^verbatim>\<open>highpycharts.py\<close> take pandas dataframes and hand lists of rows
  and nested dictionaries to a chart object of the python-highcharts library. A table cell
  is either a pandas \<^verbatim>\<open>Timestamp\<close> (held, as pandas holds it, as a count of nanoseconds
  since the epoch) or a number. Numbers are exact rationals: the rounding of float64 is
  not modelled, and missing values (NaN, NaT) are not among the cells.
\<close>

datatype cell = Stamp int | Num rat

fun is_Stamp :: "cell \<Rightarrow> bool" where
  "is_Stamp (Stamp t) = True"
| "is_Stamp (Num v) = False"

fun is_Num :: "cell \<Rightarrow> bool" where
  "is_Num (Num v) = True"
| "is_Num (Stamp t) = False"

text \<open>
  The Python values handed to the chart object: the entries of a row and the values of an
  options dictionary. \<open>PInt\<close> is a Python int and \<open>PInt64\<close> a numpy.int64, which is
  not one; \<open>PTimestamp\<close> is a pandas Timestamp object, \<open>PNaN\<close> the float that pandas
  gives as the mean of no values. A dictionary keeps the order of its literal.
\<close>

datatype pyval =
    PStr string
  | PInt int
  | PInt64 int
  | PNum rat
  | PNaN
  | PBool bool
  | PTimestamp int
  | PDict "(string \<times> pyval) list"
  | PList "pyval list"

datatype error = KeyError | ValueError | IndexError | TypeError | OptionTypeError

section \<open>Dataframes\<close>

text \<open>
  A dataframe is its index (with the index's name, which \<^verbatim>\<open>reset_index()\<close> reads) and
  its columns in order. pandas allows the same column label twice, so the columns are an
  association list and not a map.
\<close>

record frame =
  index_name :: "string option"
  index :: "cell list"
  columns :: "(string \<times> cell list) list"

definition wf_frame :: "frame \<Rightarrow> bool" where
  "wf_frame d = list_all (\<lambda>c. length (snd c) = length (index d)) (columns d)"

definition columns_tolist :: "frame \<Rightarrow> string list" where
  "columns_tolist d = map fst (columns d)"

text \<open>
  \<^verbatim>\<open>d[name] = vals\<close> for a one-dimensional \<open>vals\<close>: a column labelled \<open>name\<close> is
  overwritten in place; when there is none, a new last column is added. When several
  columns carry the label, pandas spreads the value over them: each of them is
  overwritten with \<open>vals\<close>, except that, when they are as many as \<open>vals\<close> has entries,
  the value is laid across them and the j-th of them is filled with the j-th entry.
\<close>

fun lay_across :: "string \<Rightarrow> cell list \<Rightarrow> nat \<Rightarrow> (string \<times> cell list) list \<Rightarrow> (string \<times> cell list) list" where
  "lay_across name vals j [] = []"
| "lay_across name vals j (c # cs) =
     (if fst c = name
      then (name, replicate (length vals) (vals ! j)) # lay_across name vals (Suc j) cs
      else c # lay_across name vals j cs)"

definition setitem :: "frame \<Rightarrow> string \<Rightarrow> cell list \<Rightarrow> frame" where
  "setitem d name vals =
     (let k = count_list (columns_tolist d) name
      in if k = 0 then d\<lparr>columns := columns d @ [(name, vals)]\<rparr>
         else if 2 \<le> k \<and> k = length vals
         then d\<lparr>columns := lay_across name vals 0 (columns d)\<rparr>
         else d\<lparr>columns := map (\<lambda>c. if fst c = name then (name, vals) else c) (columns d)\<rparr>)"

definition RangeIndex :: "nat \<Rightarrow> cell list" where
  "RangeIndex n = map (\<lambda>i. Num (of_nat i)) [0..<n]"

text \<open>\<^verbatim>\<open>d.reset_index(drop=True)\<close>: a new frame whose index is 0, 1, ...\<close>

definition reset_index_drop :: "frame \<Rightarrow> frame" where
  "reset_index_drop d = d\<lparr>index_name := None, index := RangeIndex (length (index d))\<rparr>"

text \<open>
  \<^verbatim>\<open>d.reset_index()\<close>: the old index becomes the first column, labelled with the
  index's name, or \<^verbatim>\<open>index\<close> (\<^verbatim>\<open>level_0\<close> when a column \<^verbatim>\<open>index\<close> exists) for an
  unnamed index; pandas raises ValueError when that label is already a column.
\<close>

definition reset_index_label :: "frame \<Rightarrow> string" where
  "reset_index_label d =
     (case index_name d of
        Some n \<Rightarrow> n
      | None \<Rightarrow> if ''index'' \<in> set (columns_tolist d) then ''level_0'' else ''index'')"

definition reset_index :: "frame \<Rightarrow> error + frame" where
  "reset_index d =
     (if reset_index_label d \<in> set (columns_tolist d) then Inl ValueError
      else Inr \<lparr>index_name = None, index = RangeIndex (length (index d)),
                columns = (reset_index_label d, index d) # columns d\<rparr>)"

text \<open>
  \<^verbatim>\<open>d.loc[:, keys]\<close>: for each key in turn, every column carrying that label;
  KeyError when a key labels no column.
\<close>

definition loc_cols :: "frame \<Rightarrow> string list \<Rightarrow> error + frame" where
  "loc_cols d keys =
     (if list_all (\<lambda>k. k \<in> set (columns_tolist d)) keys
      then Inr (d\<lparr>columns := concat (map (\<lambda>k. filter (\<lambda>c. fst c = k) (columns d)) keys)\<rparr>)
      else Inl KeyError)"

text \<open>
  \<^verbatim>\<open>d.values.tolist()\<close>: the rows of the frame as lists. When the columns are of
  different kinds the array is an object array and a timestamp stays a Timestamp object;
  when every column is a datetime column the array is a datetime64[ns] array, whose
  \<^verbatim>\<open>tolist()\<close> gives the integer nanosecond counts. A column's dtype is read off its
  cells here.
\<close>

fun box :: "cell \<Rightarrow> pyval" where
  "box (Stamp t) = PTimestamp t"
| "box (Num v) = PNum v"

fun ns_value :: "cell \<Rightarrow> pyval" where
  "ns_value (Stamp t) = PInt t"
| "ns_value (Num v) = PNum v"

definition all_datetime :: "frame \<Rightarrow> bool" where
  "all_datetime d = (columns d \<noteq> [] \<and> list_all (\<lambda>c. list_all is_Stamp (snd c)) (columns d))"

definition values_tolist :: "frame \<Rightarrow> pyval list list" where
  "values_tolist d =
     map (\<lambda>r. map (\<lambda>c. (if all_datetime d then ns_value else box) (snd c ! r)) (columns d))
       [0..<length (index d)]"

section \<open>The object store\<close>

text \<open>
  The caller's dataframe is a mutable object that the builder receives by reference.
  The store maps references to frames; \<open>next_ref\<close> is the first unused reference.
  \<^verbatim>\<open>copy()\<close>, \<^verbatim>\<open>reset_index\<close> and \<^verbatim>\<open>sort_values\<close> make new objects, item and
  attribute assignment change an object in place. Temporaries that are only read
  (the result of \<^verbatim>\<open>loc\<close>, of \<^verbatim>\<open>groupby\<close>) are not given a reference.
\<close>

record heap =
  objs :: "nat \<Rightarrow> frame"
  next_ref :: nat

definition alloc :: "frame \<Rightarrow> heap \<Rightarrow> heap" where
  "alloc d h = h\<lparr>objs := (objs h)(next_ref h := d), next_ref := Suc (next_ref h)\<rparr>"

definition store :: "nat \<Rightarrow> frame \<Rightarrow> heap \<Rightarrow> heap" where
  "store r d h = h\<lparr>objs := (objs h)(r := d)\<rparr>"

definition df_new :: "frame \<Rightarrow> heap \<Rightarrow> nat \<times> heap" where
  "df_new d h = (next_ref h, alloc d h)"

definition df_copy :: "nat \<Rightarrow> heap \<Rightarrow> nat \<times> heap" where
  "df_copy r h = df_new (objs h r) h"

definition df_setitem :: "nat \<Rightarrow> string \<Rightarrow> cell list \<Rightarrow> heap \<Rightarrow> heap" where
  "df_setitem r name vals h = store r (setitem (objs h r) name vals) h"

section \<open>The chart handle\<close>

text \<open>
  The chart object belongs to the charting library; the model records what the builder
  hands to it: the constructor's arguments, each \<^verbatim>\<open>add_data_set\<close> call in order, and
  the dictionary given to \<^verbatim>\<open>set_dict_options\<close>.
\<close>

datatype chart_class = Highstock_class | Highchart_class

record series =
  sdata :: "pyval list list"
  series_type :: string
  sname :: string
  kwargs :: "(string \<times> pyval) list"

record chart =
  cls :: chart_class
  width :: int
  height :: int
  data_temp :: "series list"
  options :: "(string \<times> pyval) list"

definition Highstock :: "int \<Rightarrow> int \<Rightarrow> chart" where
  "Highstock w ht = \<lparr>cls = Highstock_class, width = w, height = ht, data_temp = [], options = []\<rparr>"

definition Highchart :: "int \<Rightarrow> int \<Rightarrow> chart" where
  "Highchart w ht = \<lparr>cls = Highchart_class, width = w, height = ht, data_temp = [], options = []\<rparr>"

definition add_data_set ::
  "pyval list list \<Rightarrow> string \<Rightarrow> string \<Rightarrow> (string \<times> pyval) list \<Rightarrow> chart \<Rightarrow> chart" where
  "add_data_set dat ty name kw H =
     H\<lparr>data_temp := data_temp H @ [\<lparr>sdata = dat, series_type = ty, sname = name, kwargs = kw\<rparr>]\<rparr>"

text \<open>
  \<^verbatim>\<open>H.set_dict_options(options)\<close> is the charting library's. It checks the type of the
  option values against the types it accepts and raises OptionTypeError for a value of
  another type; a numpy.int64 is such a value (it is not a Python int), and it is the only
  kind of value the builders pass that the library refuses. Otherwise the options are
  stored in the handle.
\<close>

primrec has_int64 :: "pyval \<Rightarrow> bool" where
  "has_int64 (PStr s) = False"
| "has_int64 (PInt i) = False"
| "has_int64 (PInt64 i) = True"
| "has_int64 (PNum x) = False"
| "has_int64 PNaN = False"
| "has_int64 (PBool b) = False"
| "has_int64 (PTimestamp t) = False"
| "has_int64 (PDict kvs) = list_ex snd (map (map_prod id has_int64) kvs)"
| "has_int64 (PList vs) = list_ex id (map has_int64 vs)"

definition put_options :: "(string \<times> pyval) list \<Rightarrow> chart \<Rightarrow> chart" where
  "put_options opts H = H\<lparr>options := opts\<rparr>"

definition set_dict_options :: "(string \<times> pyval) list \<Rightarrow> chart \<Rightarrow> error + chart" where
  "set_dict_options opts H =
     (if has_int64 (PDict opts) then Inl OptionTypeError else Inr (put_options opts H))"

text \<open>
  What a call comes to: the handle returned, or the exception raised together with the
  handle as it stood at the raise (the caller never sees that handle; it is kept to say
  what had been attached by then).
\<close>

datatype outcome = Returned chart | Raised error chart

text \<open>
  \<^verbatim>\<open>H.set_dict_options(options); return H\<close>, the last two lines of every builder. When
  the library refuses the options, the handle of the outcome is the one before the call:
  which of the options the library had stored by then is not modelled, and only the
  attached series are read off a handle that was not returned.
\<close>

definition return_with_options :: "(string \<times> pyval) list \<Rightarrow> chart \<Rightarrow> outcome" where
  "return_with_options opts H =
     (case set_dict_options opts H of Inl e \<Rightarrow> Raised e H | Inr H' \<Rightarrow> Returned H')"

section \<open>Module constants\<close>

datatype DefaultRange = one_month | three_month | six_month | ytd | year | all

fun DefaultRange_value :: "DefaultRange \<Rightarrow> int" where
  "DefaultRange_value one_month = 0"
| "DefaultRange_value three_month = 1"
| "DefaultRange_value six_month = 2"
| "DefaultRange_value ytd = 3"
| "DefaultRange_value year = 4"
| "DefaultRange_value all = 5"

text \<open>\<^verbatim>\<open>range_sel\<close> is a member of the enumeration or a plain integer; \<^verbatim>\<open>int(range_sel)\<close>.\<close>

datatype range_arg = Enum DefaultRange | Plain int

fun int_range :: "range_arg \<Rightarrow> int" where
  "int_range (Enum r) = DefaultRange_value r"
| "int_range (Plain i) = i"

definition axisFormatDateTime :: "(string \<times> pyval) list" where
  "axisFormatDateTime =
     [(''type'', PStr ''datetime''),
      (''dateTimeLabelFormats'', PDict
         [(''millisecond'', PStr ''%H:%M:%S.%L''),
          (''second'', PStr ''%H:%M:%S''),
          (''minute'', PStr ''%H:%M''),
          (''hour'', PStr ''%H:%M''),
          (''day'', PStr ''%e. %b''),
          (''week'', PStr ''%e. %b''),
          (''month'', PStr (''%b '' @ [CHR 0x27] @ ''%y'')),
          (''year'', PStr ''%Y'')]),
      (''tickmarkPlacement'', PStr ''on''),
      (''title'', PDict [(''enabled'', PBool False)])]"

section \<open>The reshape loop of the line builders\<close>

text \<open>
  \<^verbatim>\<open>for name in groups_name: data1 = data.loc[:, ('date_field', name)].values.tolist();
  H.add_data_set(data1, 'line', name)\<close>, with the keyword arguments of the call as
  \<open>kw\<close>.
\<close>

fun add_lines :: "frame \<Rightarrow> (string \<times> pyval) list \<Rightarrow> string list \<Rightarrow> chart \<Rightarrow> error \<times> chart + chart" where
  "add_lines d kw [] H = Inr H"
| "add_lines d kw (name # rest) H =
     (case loc_cols d [''date_field'', name] of
        Inl e \<Rightarrow> Inl (e, H)
      | Inr sel \<Rightarrow> add_lines d kw rest (add_data_set (values_tolist sel) ''line'' name kw H))"

section \<open>line\_chart\<close>

definition line_chart_options ::
  "string \<Rightarrow> string \<Rightarrow> range_arg \<Rightarrow> int \<Rightarrow> bool \<Rightarrow> (string \<times> pyval) list" where
  "line_chart_options y_name title range_sel num_decimals legend =
     [(''legend'', PDict [(''enabled'', PBool legend)]),
      (''rangeSelector'', PDict [(''selected'', PInt (int_range range_sel))]),
      (''title'', PDict
         [(''text'', PStr title),
          (''style'', PDict [(''fontSize'', PStr ''21px'')])]),
      (''yAxis'', PDict
         [(''title'', PDict
            [(''text'', PStr y_name),
             (''style'', PDict [(''fontSize'', PStr ''14px'')])])]),
      (''tooltip'', PDict
         [(''valueDecimals'', PInt num_decimals),
          (''xDateFormat'', PStr ''%A, %b %d, %Y''),
          (''shared'', PBool True)])]"

definition line_chart ::
  "nat \<Rightarrow> string \<Rightarrow> string \<Rightarrow> range_arg \<Rightarrow> int \<Rightarrow> bool \<Rightarrow> int \<Rightarrow> int \<Rightarrow> heap \<Rightarrow> outcome \<times> heap" where
  "line_chart data0 y_name title range_sel num_decimals legend figsize_x figsize_y h0 =
     (let H = Highstock figsize_x figsize_y;
          (data, h1) = df_copy data0 h0;
          groups_name = columns_tolist (objs h1 data);
          h2 = df_setitem data ''date_field'' (index (objs h1 data)) h1;
          (data, h3) = df_new (reset_index_drop (objs h2 data)) h2
      in case add_lines (objs h3 data) [] groups_name H of
           Inl (e, H') \<Rightarrow> (Raised e H', h3)
         | Inr H' \<Rightarrow>
             (return_with_options
                (line_chart_options y_name title range_sel num_decimals legend) H', h3))"

section \<open>line\_customline\<close>

text \<open>
  \<^verbatim>\<open>pd.Timestamp(plotline_date)\<close> parses the caller's date string; the parser is pandas'
  and is a parameter here (an unparsable string raises ValueError). The builder's own
  part is \<^verbatim>\<open>.asm8.astype("datetime64[ms]").astype("int64")\<close>: nanoseconds to whole
  milliseconds, rounding down, as a numpy.int64.
\<close>

definition epoch_ms :: "int \<Rightarrow> int" where
  "epoch_ms ns = ns div 1000000"

definition line_customline_options ::
  "int \<Rightarrow> string \<Rightarrow> string \<Rightarrow> range_arg \<Rightarrow> int \<Rightarrow> string \<Rightarrow> bool \<Rightarrow> (string \<times> pyval) list" where
  "line_customline_options plotline_ns y_name title range_sel num_decimals line_text legend =
     [(''legend'', PDict [(''enabled'', PBool legend)]),
      (''rangeSelector'', PDict [(''selected'', PInt (int_range range_sel))]),
      (''title'', PDict
         [(''text'', PStr title),
          (''style'', PDict [(''fontSize'', PStr ''21px'')])]),
      (''xAxis'', PDict
         [(''plotLines'', PList [PDict
            [(''value'', PInt64 (epoch_ms plotline_ns)),
             (''color'', PStr ''black''),
             (''width'', PInt 2),
             (''zIndex'', PInt 4),
             (''label'', PDict [(''text'', PStr line_text)])]])]),
      (''yAxis'', PDict
         [(''title'', PDict
            [(''text'', PStr y_name),
             (''style'', PDict [(''fontSize'', PStr ''14px'')])])]),
      (''tooltip'', PDict
         [(''valueDecimals'', PInt num_decimals),
          (''xDateFormat'', PStr ''%A, %b %d, %Y''),
          (''shared'', PBool True)])]"

definition line_customline ::
  "nat \<Rightarrow> string \<Rightarrow> string \<Rightarrow> string \<Rightarrow> range_arg \<Rightarrow> int \<Rightarrow> string \<Rightarrow> bool \<Rightarrow> int \<Rightarrow> int \<Rightarrow>
   (string \<Rightarrow> error + int) \<Rightarrow> heap \<Rightarrow> outcome \<times> heap" where
  "line_customline data0 plotline_date y_name title range_sel num_decimals line_text legend
       figsize_x figsize_y pd_Timestamp h0 =
     (let H = Highstock figsize_x figsize_y;
          (data, h1) = df_copy data0 h0;
          groups_name = columns_tolist (objs h1 data);
          h2 = df_setitem data ''date_field'' (index (objs h1 data)) h1;
          (data, h3) = df_new (reset_index_drop (objs h2 data)) h2
      in case add_lines (objs h3 data) [] groups_name H of
           Inl (e, H') \<Rightarrow> (Raised e H', h3)
         | Inr H' \<Rightarrow>
             (case pd_Timestamp plotline_date of
                Inl e \<Rightarrow> (Raised e H', h3)
              | Inr ns \<Rightarrow>
                  (return_with_options
                     (line_customline_options ns y_name title range_sel num_decimals
                        line_text legend) H', h3)))"

section \<open>The stacked area builders\<close>

text \<open>
  matplotlib is a collaborator: its default normaliser class, its colormap registry
  (ValueError for an unknown name) and \<^verbatim>\<open>rgb2hex\<close> are parameters. A normaliser class
  is called with \<^verbatim>\<open>vmin=0, vmax=n\<close> and gives the instance that maps an index to a
  number; a colormap maps that number to a colour.
\<close>

type_synonym rgba = "rat \<times> rat \<times> rat \<times> rat"

record matplotlib =
  Normalize :: "nat \<Rightarrow> nat \<Rightarrow> rat"
  get_cmap :: "string \<Rightarrow> error + (rat \<Rightarrow> rgba)"
  rgb2hex :: "rgba \<Rightarrow> string"

definition palette :: "string list" where
  "palette = [''#7cb5ec'', ''#434348'', ''#90ed7d'', ''#f7a35c'', ''#8085e9'',
              ''#f15c80'', ''#e4d354'', ''#2b908f'', ''#f45b5b'', ''#91e8e1'']"

text \<open>\<^verbatim>\<open>default_colors = [...] * 10\<close>: the ten colours, ten times over.\<close>

definition default_colors :: "string list" where
  "default_colors = concat (replicate 10 palette)"

text \<open>\<^verbatim>\<open>xs[i]\<close> for an index that \<^verbatim>\<open>enumerate\<close> counts up from 0.\<close>

definition getitem :: "'a list \<Rightarrow> nat \<Rightarrow> error + 'a" where
  "getitem xs i = (if i < length xs then Inr (xs ! i) else Inl IndexError)"

text \<open>\<^verbatim>\<open>cmap or 'RdYlBu'\<close>: the empty string is false as well.\<close>

fun cmap_or :: "string option \<Rightarrow> string" where
  "cmap_or None = ''RdYlBu''"
| "cmap_or (Some c) = (if c = [] then ''RdYlBu'' else c)"

fun add_areas ::
  "matplotlib \<Rightarrow> frame \<Rightarrow> string option \<Rightarrow> (rat \<Rightarrow> rgba) \<Rightarrow> (nat \<Rightarrow> rat) \<Rightarrow> (nat \<times> string) list \<Rightarrow>
   chart \<Rightarrow> error \<times> chart + chart" where
  "add_areas plt d cmap colormap normInstance [] H = Inr H"
| "add_areas plt d cmap colormap normInstance ((i, name) # rest) H =
     (case (if cmap = None then getitem default_colors i
            else Inr (rgb2hex plt (colormap (normInstance i)))) of
        Inl e \<Rightarrow> Inl (e, H)
      | Inr color \<Rightarrow>
          (case loc_cols d [''date_field'', name] of
             Inl e \<Rightarrow> Inl (e, H)
           | Inr sel \<Rightarrow>
               add_areas plt d cmap colormap normInstance rest
                 (add_data_set (values_tolist sel) ''area'' name [(''color'', PStr color)] H)))"

definition formatter_value :: string where
  "formatter_value =
     ''function () {'' @ replicate 36 CHR '' '' @ ''return this.value ;'' @
     replicate 32 CHR '' '' @ ''}''"

definition area_stacked_options ::
  "string \<Rightarrow> string \<Rightarrow> range_arg \<Rightarrow> int \<Rightarrow> bool \<Rightarrow> (string \<times> pyval) list" where
  "area_stacked_options y_name title range_sel num_decimals legend =
     [(''legend'', PDict [(''enabled'', PBool legend)]),
      (''rangeSelector'', PDict [(''selected'', PInt (int_range range_sel))]),
      (''title'', PDict
         [(''text'', PStr title),
          (''style'', PDict [(''fontSize'', PStr ''20px'')])]),
      (''xAxis'', PDict axisFormatDateTime),
      (''yAxis'', PDict
         [(''title'', PDict
            [(''text'', PStr y_name),
             (''style'', PDict [(''fontSize'', PStr ''13px'')])]),
          (''labels'', PDict [(''formatter'', PStr formatter_value)])]),
      (''tooltip'', PDict
         [(''shared'', PBool True),
          (''xDateFormat'', PStr ''%A, %b %d, %Y''),
          (''valueDecimals'', PInt num_decimals)]),
      (''plotOptions'', PDict
         [(''area'', PDict
            [(''stacking'', PStr ''normal''),
             (''connectNulls'', PBool True),
             (''lineWidth'', PInt 1),
             (''marker'', PDict [(''lineWidth'', PInt 1)])])])]"

definition area_stacked ::
  "nat \<Rightarrow> string \<Rightarrow> string \<Rightarrow> range_arg \<Rightarrow> int \<Rightarrow> bool \<Rightarrow> (nat \<Rightarrow> nat \<Rightarrow> rat) option \<Rightarrow>
   string option \<Rightarrow> int \<Rightarrow> int \<Rightarrow> matplotlib \<Rightarrow> heap \<Rightarrow> outcome \<times> heap" where
  "area_stacked data0 y_name title range_sel num_decimals legend norm_arg cmap figsize_x figsize_y
       plt h0 =
     (let H = Highstock figsize_x figsize_y;
          (data, h1) = df_copy data0 h0;
          groups_name = columns_tolist (objs h1 data);
          h2 = df_setitem data ''date_field'' (index (objs h1 data)) h1;
          (data, h3) = df_new (reset_index_drop (objs h2 data)) h2;
          norm_cls = (case norm_arg of None \<Rightarrow> Normalize plt | Some n \<Rightarrow> n);
          normInstance = norm_cls (length groups_name)
      in case get_cmap plt (cmap_or cmap) of
           Inl e \<Rightarrow> (Raised e H, h3)
         | Inr colormap \<Rightarrow>
             (case add_areas plt (objs h3 data) cmap colormap normInstance
                     (enumerate 0 groups_name) H of
                Inl (e, H') \<Rightarrow> (Raised e H', h3)
              | Inr H' \<Rightarrow>
                  (return_with_options
                     (area_stacked_options y_name title range_sel num_decimals legend) H',
                   h3)))"

definition pointFormat_percentage :: string where
  \<open>pointFormat_percentage =
     ''<span style="color:{series.color}">{series.name}</span>: <b>{point.y}</b> ({point.percentage:.2f}%)<br/>''\<close>

definition area_pct_total_options ::
  "string \<Rightarrow> string \<Rightarrow> range_arg \<Rightarrow> int \<Rightarrow> bool \<Rightarrow> (string \<times> pyval) list" where
  "area_pct_total_options y_name title range_sel num_decimals legend =
     [(''legend'', PDict [(''enabled'', PBool legend)]),
      (''rangeSelector'', PDict [(''selected'', PInt (int_range range_sel))]),
      (''title'', PDict
         [(''text'', PStr title),
          (''style'', PDict [(''fontSize'', PStr ''20px'')])]),
      (''xAxis'', PDict axisFormatDateTime),
      (''yAxis'', PDict
         [(''title'', PDict
            [(''text'', PStr (''Percent of '' @ y_name)),
             (''style'', PDict [(''fontSize'', PStr ''13px'')])]),
          (''labels'', PDict [(''formatter'', PStr formatter_value)])]),
      (''tooltip'', PDict
         [(''shared'', PBool True),
          (''pointFormat'', PStr pointFormat_percentage),
          (''valueDecimals'', PInt num_decimals)]),
      (''plotOptions'', PDict
         [(''area'', PDict
            [(''stacking'', PStr ''percent''),
             (''connectNulls'', PBool True),
             (''lineWidth'', PInt 1),
             (''marker'', PDict [(''lineWidth'', PInt 1)])])])]"

definition area_pct_total ::
  "nat \<Rightarrow> string \<Rightarrow> string \<Rightarrow> range_arg \<Rightarrow> int \<Rightarrow> bool \<Rightarrow> (nat \<Rightarrow> nat \<Rightarrow> rat) option \<Rightarrow>
   string option \<Rightarrow> int \<Rightarrow> int \<Rightarrow> matplotlib \<Rightarrow> heap \<Rightarrow> outcome \<times> heap" where
  "area_pct_total data0 y_name title range_sel num_decimals legend norm_arg cmap figsize_x figsize_y
       plt h0 =
     (let H = Highstock figsize_x figsize_y;
          groups_name = columns_tolist (objs h0 data0);
          (data, h1) = df_copy data0 h0;
          h2 = df_setitem data ''date_field'' (index (objs h1 data)) h1;
          (data, h3) = df_new (reset_index_drop (objs h2 data)) h2;
          norm_cls = (case norm_arg of None \<Rightarrow> Normalize plt | Some n \<Rightarrow> n);
          normInstance = norm_cls (length groups_name)
      in case get_cmap plt (cmap_or cmap) of
           Inl e \<Rightarrow> (Raised e H, h3)
         | Inr colormap \<Rightarrow>
             (case add_areas plt (objs h3 data) cmap colormap normInstance
                     (enumerate 0 groups_name) H of
                Inl (e, H') \<Rightarrow> (Raised e H', h3)
              | Inr H' \<Rightarrow>
                  (return_with_options
                     (area_pct_total_options y_name title range_sel num_decimals legend) H',
                   h3)))"

section \<open>line\_secondary\_y\<close>

definition line_secondary_y_options ::
  "string \<Rightarrow> string \<Rightarrow> string \<Rightarrow> range_arg \<Rightarrow> int \<Rightarrow> (string \<times> pyval) list" where
  "line_secondary_y_options secondy_axis_name y_name title range_sel num_decimals =
     [(''legend'', PDict [(''enabled'', PBool True)]),
      (''rangeSelector'', PDict [(''selected'', PInt (int_range range_sel))]),
      (''title'', PDict
         [(''text'', PStr title),
          (''style'', PDict [(''fontSize'', PStr ''23px'')])]),
      (''yAxis'', PList
         [PDict
            [(''title'', PDict
               [(''text'', PStr y_name),
                (''style'', PDict [(''fontSize'', PStr ''14px'')])])],
          PDict
            [(''title'', PDict
               [(''text'', PStr secondy_axis_name),
                (''style'', PDict [(''fontSize'', PStr ''14px'')])]),
             (''opposite'', PBool False)]]),
      (''tooltip'', PDict
         [(''valueDecimals'', PInt num_decimals),
          (''xDateFormat'', PStr ''%A, %b %d, %Y''),
          (''shared'', PBool True)])]"

text \<open>
  The second table goes through \<^verbatim>\<open>reset_index()\<close> without \<^verbatim>\<open>drop=True\<close>, which can
  raise; the first loop passes no \<^verbatim>\<open>yAxis\<close> keyword, the second passes \<^verbatim>\<open>yAxis=1\<close>.
\<close>

definition line_secondary_y ::
  "nat \<Rightarrow> nat \<Rightarrow> string \<Rightarrow> string \<Rightarrow> string \<Rightarrow> range_arg \<Rightarrow> int \<Rightarrow> int \<Rightarrow> int \<Rightarrow> heap \<Rightarrow>
   outcome \<times> heap" where
  "line_secondary_y data0 data20 secondy_axis_name y_name title range_sel num_decimals
       figsize_x figsize_y h0 =
     (let H = Highstock figsize_x figsize_y;
          (data, h1) = df_copy data0 h0;
          (data2, h2) = df_copy data20 h1;
          groups_name = columns_tolist (objs h2 data);
          groups_name2 = columns_tolist (objs h2 data2);
          h3 = df_setitem data ''date_field'' (index (objs h2 data)) h2;
          (data, h4) = df_new (reset_index_drop (objs h3 data)) h3;
          h5 = df_setitem data2 ''date_field'' (index (objs h4 data2)) h4
      in case reset_index (objs h5 data2) of
           Inl e \<Rightarrow> (Raised e H, h5)
         | Inr d2 \<Rightarrow>
             (let (data2, h6) = df_new d2 h5
              in case add_lines (objs h6 data) [] groups_name H of
                   Inl (e, H') \<Rightarrow> (Raised e H', h6)
                 | Inr H' \<Rightarrow>
                     (case add_lines (objs h6 data2) [(''yAxis'', PInt 1)] groups_name2 H' of
                        Inl (e, H'') \<Rightarrow> (Raised e H'', h6)
                      | Inr H'' \<Rightarrow>
                          (return_with_options
                             (line_secondary_y_options secondy_axis_name y_name title range_sel
                                num_decimals) H'', h6))))"

text \<open>
  The axis a series is drawn against: the \<^verbatim>\<open>yAxis\<close> keyword of its
  \<^verbatim>\<open>add_data_set\<close> call, and the charting library's default, the first axis, without one.
\<close>

definition series_yAxis :: "series \<Rightarrow> pyval" where
  "series_yAxis s = (case map_of (kwargs s) ''yAxis'' of None \<Rightarrow> PInt 0 | Some v \<Rightarrow> v)"

section \<open>line\_pct\_change\<close>

definition formatter_percent :: string where
  "formatter_percent =
     ''function () {'' @ replicate 32 CHR '' '' @
     ''return (this.value > 0 ? '' @ [CHR 0x27] @ '' + '' @ [CHR 0x27] @ '' : '' @
     [CHR 0x27, CHR 0x27] @ '') + this.value + '' @ [CHR 0x27] @ ''%'' @ [CHR 0x27] @ '';'' @
     replicate 28 CHR '' '' @ ''}''"

definition pointFormat_change :: string where
  \<open>pointFormat_change =
     ''<span style="color:{series.color}">{series.name}</span>: <b>{point.y}</b> ({point.change}%)<br/>''\<close>

definition line_pct_change_options ::
  "string \<Rightarrow> string \<Rightarrow> range_arg \<Rightarrow> int \<Rightarrow> bool \<Rightarrow> (string \<times> pyval) list" where
  "line_pct_change_options y_name title range_sel num_decimals legend =
     [(''legend'', PDict [(''enabled'', PBool legend)]),
      (''rangeSelector'', PDict [(''selected'', PInt (int_range range_sel))]),
      (''title'', PDict [(''text'', PStr title)]),
      (''yAxis'', PDict
         [(''title'', PDict [(''text'', PStr y_name)]),
          (''labels'', PDict [(''formatter'', PStr formatter_percent)]),
          (''plotLines'', PList [PDict
             [(''value'', PInt 0),
              (''width'', PInt 2),
              (''color'', PStr ''silver'')]])]),
      (''plotOptions'', PDict [(''series'', PDict [(''compare'', PStr ''percent'')])]),
      (''tooltip'', PDict
         [(''pointFormat'', PStr pointFormat_change),
          (''valueDecimals'', PInt num_decimals)])]"

definition line_pct_change ::
  "nat \<Rightarrow> string \<Rightarrow> string \<Rightarrow> range_arg \<Rightarrow> int \<Rightarrow> bool \<Rightarrow> int \<Rightarrow> int \<Rightarrow> heap \<Rightarrow> outcome \<times> heap" where
  "line_pct_change data0 y_name title range_sel num_decimals legend figsize_x figsize_y h0 =
     (let H = Highstock figsize_x figsize_y;
          (data, h1) = df_copy data0 h0;
          groups_name = columns_tolist (objs h1 data);
          h2 = df_setitem data ''date_field'' (index (objs h1 data)) h1;
          (data, h3) = df_new (reset_index_drop (objs h2 data)) h2
      in case add_lines (objs h3 data) [] groups_name H of
           Inl (e, H') \<Rightarrow> (Raised e H', h3)
         | Inr H' \<Rightarrow>
             (return_with_options
                (line_pct_change_options y_name title range_sel num_decimals legend) H', h3))"

section \<open>boxplot\<close>

subsection \<open>The pandas operations boxplot calls\<close>

text \<open>\<^verbatim>\<open>d.columns = names\<close>: ValueError (length mismatch) unless there is a name for each column.\<close>

definition set_columns :: "frame \<Rightarrow> string list \<Rightarrow> error + frame" where
  "set_columns d names =
     (if length names = length (columns d)
      then Inr (d\<lparr>columns := zip names (map snd (columns d))\<rparr>)
      else Inl ValueError)"

text \<open>The number a cell is ordered by: the nanosecond count of a timestamp, a number itself.\<close>

fun cell_key :: "cell \<Rightarrow> rat" where
  "cell_key (Stamp t) = of_int t"
| "cell_key (Num v) = v"

definition column :: "frame \<Rightarrow> string \<Rightarrow> error + cell list" where
  "column d name =
     (case filter (\<lambda>c. fst c = name) (columns d) of
        [] \<Rightarrow> Inl KeyError
      | [c] \<Rightarrow> Inr (snd c)
      | c # c' # cs \<Rightarrow> Inl ValueError)"

text \<open>
  What a label refers to in \<^verbatim>\<open>sort_values\<close> and \<^verbatim>\<open>groupby\<close>: the column of that
  label or, when there is no such column, the index if it carries that name. A label
  that names both the index and a column is refused as ambiguous (ValueError).
\<close>

definition label_values :: "frame \<Rightarrow> string \<Rightarrow> error + cell list" where
  "label_values d name =
     (if index_name d = Some name
      then (if name \<in> set (columns_tolist d) then Inl ValueError else Inr (index d))
      else column d name)"

text \<open>
  \<^verbatim>\<open>d.sort_values(name)\<close>: a new frame with the rows (index label and cells) in
  ascending order of the values the label refers to. Python refuses to compare a
  Timestamp with a number (TypeError). The order of rows with equal values is not fixed
  by pandas' default sort; nothing below depends on it, and the model keeps their order.
\<close>

definition sort_values :: "frame \<Rightarrow> string \<Rightarrow> error + frame" where
  "sort_values d name =
     (case label_values d name of
        Inl e \<Rightarrow> Inl e
      | Inr vs \<Rightarrow>
          if list_all is_Num vs \<or> list_all is_Stamp vs
          then (let perm = sort_key (\<lambda>r. cell_key (vs ! r)) [0..<length (index d)]
                in Inr (d\<lparr>index := map (\<lambda>r. index d ! r) perm,
                          columns := map (\<lambda>c. (fst c, map (\<lambda>r. snd c ! r) perm)) (columns d)\<rparr>))
          else Inl TypeError)"

text \<open>
  Modelled from the spec: \<^verbatim>\<open>Series.mean()\<close> is pandas' and not in the sources; the spec
  calls it the unweighted arithmetic mean of all values. The mean of no values is NaN
  (\<open>None\<close>). Of a datetime column pandas returns a Timestamp, which \<^verbatim>\<open>round\<close> then
  refuses with TypeError: the model raises it here, one call earlier, to the same effect.
\<close>

definition series_mean :: "cell list \<Rightarrow> error + rat option" where
  "series_mean vs =
     (if list_all is_Num vs
      then Inr (if vs = [] then None else Some (sum_list (map cell_key vs) / of_nat (length vs)))
      else Inl TypeError)"

text \<open>
  Modelled from the spec: \<^verbatim>\<open>round(x, num_decimals)\<close> on a numpy float is numpy's and not
  in the sources; the spec calls it rounding to the requested decimal count. On exact
  numbers: scale by the power of ten, round to the nearest integer with ties to the even
  one, scale back. NaN stays NaN.
\<close>

definition rint :: "rat \<Rightarrow> int" where
  "rint x =
     (let f = \<lfloor>x\<rfloor>; r = x - of_int f
      in if r < 1 / 2 then f else if 1 / 2 < r then f + 1 else if even f then f else f + 1)"

definition round_decimals :: "rat \<Rightarrow> int \<Rightarrow> rat" where
  "round_decimals x n =
     (if 0 \<le> n then of_int (rint (x * 10 ^ nat n)) / 10 ^ nat n
      else of_int (rint (x / 10 ^ nat (- n))) * 10 ^ nat (- n))"

definition py_round :: "rat option \<Rightarrow> int \<Rightarrow> rat option" where
  "py_round x n = map_option (\<lambda>v. round_decimals v n) x"

fun float_val :: "rat option \<Rightarrow> pyval" where
  "float_val None = PNaN"
| "float_val (Some v) = PNum v"

text \<open>
  Modelled from the spec: \<^verbatim>\<open>groupby\<close> and the grouped \<^verbatim>\<open>quantile\<close> are pandas' and not
  in the sources; the spec has the table grouped by its first column and the percentiles
  computed within each group. The keys are the values \<open>label_values\<close> gives for the
  grouping label. The group keys are the distinct keys in ascending order;
  a group's values are those of the rows carrying its key. The percentile is pandas'
  default, linear interpolation between the two nearest ranks of the sorted values:
  rank \<open>q * (n - 1)\<close>, NaN (\<open>None\<close>) for no values.
\<close>

definition group_keys :: "cell list \<Rightarrow> cell list" where
  "group_keys ks = remdups (sort_key cell_key ks)"

definition group_values :: "cell list \<Rightarrow> cell list \<Rightarrow> cell \<Rightarrow> rat list" where
  "group_values ks vs k = map (cell_key \<circ> snd) (filter (\<lambda>p. fst p = k) (zip ks vs))"

definition quantile :: "rat list \<Rightarrow> rat \<Rightarrow> rat option" where
  "quantile vs q =
     (if vs = [] then None
      else (let s = sort vs;
                pos = q * of_nat (length s - 1);
                lo = nat \<lfloor>pos\<rfloor>;
                frac = pos - of_nat lo
            in if lo + 1 < length s then Some (s ! lo + (s ! (lo + 1) - s ! lo) * frac)
               else Some (s ! (length s - 1))))"

text \<open>
  The grouped frame \<^verbatim>\<open>data_box_quant\<close>: the group keys (its index, and after
  \<^verbatim>\<open>reset_index()\<close> its column \<^verbatim>\<open>date_field\<close>) and its float columns in order.
\<close>

record box_quant =
  gkeys :: "cell list"
  gcols :: "(string \<times> rat option list) list"

text \<open>\<^verbatim>\<open>data.groupby('date_field').count()\<close>: the number of values in each group.\<close>

definition groupby_count :: "cell list \<Rightarrow> cell list \<Rightarrow> box_quant" where
  "groupby_count ks vs =
     \<lparr>gkeys = group_keys ks,
      gcols = [(''column_1'', map (\<lambda>k. Some (of_nat (length (group_values ks vs k)))) (group_keys ks))]\<rparr>"

text \<open>Python's \<^verbatim>\<open>str\<close> of a natural number.\<close>

function str_nat :: "nat \<Rightarrow> string" where
  "str_nat n =
     (if n < 10 then [''0123456789'' ! n]
      else str_nat (n div 10) @ [''0123456789'' ! (n mod 10)])"
  by pat_completeness auto
termination
  by (relation "measure id") auto

declare str_nat.simps [simp del]

text \<open>
  One turn of \<^verbatim>\<open>for i in range(0, 125, 25)\<close>: the column \<^verbatim>\<open>'quantile_' + str(i)\<close> is
  set to the grouped quantile at \<^verbatim>\<open>i / 100.0\<close>.
\<close>

definition set_quantile :: "cell list \<Rightarrow> cell list \<Rightarrow> nat \<Rightarrow> box_quant \<Rightarrow> box_quant" where
  "set_quantile ks vs i g =
     (let name = ''quantile_'' @ str_nat i;
          col = map (\<lambda>k. quantile (group_values ks vs k) (of_nat i / 100)) (gkeys g)
      in if name \<in> fst ` set (gcols g)
         then g\<lparr>gcols := map (\<lambda>c. if fst c = name then (name, col) else c) (gcols g)\<rparr>
         else g\<lparr>gcols := gcols g @ [(name, col)]\<rparr>)"

text \<open>
  \<^verbatim>\<open>data_box_quant[['date_field', ...names]].values.tolist()\<close> after \<^verbatim>\<open>reset_index()\<close>:
  a row for each group, the key first; KeyError when a name labels no column.
\<close>

definition box_list :: "box_quant \<Rightarrow> string list \<Rightarrow> error + pyval list list" where
  "box_list g names =
     (case those (map (map_of (gcols g)) names) of
        None \<Rightarrow> Inl KeyError
      | Some cols \<Rightarrow>
          Inr (map (\<lambda>j. box (gkeys g ! j) # map (\<lambda>col. float_val (col ! j)) cols)
                 [0..<length (gkeys g)]))"

subsection \<open>The builder\<close>

text \<open>\<^verbatim>\<open>toolz.assoc(d, key, value)\<close>: a copy of the dictionary with the key set.\<close>

definition assoc :: "(string \<times> pyval) list \<Rightarrow> string \<Rightarrow> pyval \<Rightarrow> (string \<times> pyval) list" where
  "assoc d key v =
     (if key \<in> fst ` set d then map (\<lambda>e. if fst e = key then (key, v) else e) d
      else d @ [(key, v)])"

text \<open>\<^verbatim>\<open>'Mean: %s  ' % mean\<close>, with Python's \<^verbatim>\<open>str\<close> of a float as a parameter.\<close>

definition mean_label :: "(pyval \<Rightarrow> string) \<Rightarrow> pyval \<Rightarrow> string" where
  "mean_label py_str mean = ''Mean: '' @ py_str mean @ ''  ''"

definition boxplot_options ::
  "(pyval \<Rightarrow> string) \<Rightarrow> pyval \<Rightarrow> string \<Rightarrow> string \<Rightarrow> int \<Rightarrow> string \<Rightarrow> (string \<times> pyval) list" where
  "boxplot_options py_str mean y_name title num_decimals x_name =
     [(''chart'', PDict [(''type'', PStr ''boxplot'')]),
      (''title'', PDict [(''text'', PStr title)]),
      (''legend'', PDict [(''enabled'', PBool False)]),
      (''xAxis'', PDict (assoc axisFormatDateTime ''title'' (PDict [(''text'', PStr x_name)]))),
      (''yAxis'', PDict
         [(''title'', PDict [(''text'', PStr y_name)]),
          (''plotLines'', PList [PDict
             [(''value'', mean),
              (''color'', PStr ''red''),
              (''width'', PInt 1),
              (''zIndex'', PInt 4),
              (''label'', PDict
                 [(''text'', PStr (mean_label py_str mean)),
                  (''align'', PStr ''right''),
                  (''style'', PDict
                     [(''color'', PStr ''gray''),
                      (''plotOptions'', PDict
                         [(''series'', PDict
                            [(''dataLabels'', PDict
                               [(''enabled'', PBool True),
                                (''crop'', PBool False),
                                (''overflow'', PStr ''none'')])])])])])]])]),
      (''tooltip'', PDict
         [(''valueDecimals'', PInt num_decimals),
          (''xDateFormat'', PStr ''%A, %b %d, %Y''),
          (''shared'', PBool True)])]"

definition boxplot ::
  "nat \<Rightarrow> string \<Rightarrow> string \<Rightarrow> int \<Rightarrow> string \<Rightarrow> int \<Rightarrow> int \<Rightarrow> (pyval \<Rightarrow> string) \<Rightarrow> heap \<Rightarrow>
   outcome \<times> heap" where
  "boxplot data0 y_name title num_decimals x_name figsize_x figsize_y py_str h0 =
     (let H = Highchart figsize_x figsize_y;
          (data, h1) = df_copy data0 h0
      in case set_columns (objs h1 data) [''date_field'', ''column_1''] of
           Inl e \<Rightarrow> (Raised e H, h1)
         | Inr d1 \<Rightarrow>
         (let h2 = store data d1 h1
          in case sort_values (objs h2 data) ''column_1'' of
               Inl e \<Rightarrow> (Raised e H, h2)
             | Inr d2 \<Rightarrow>
             (let (data, h3) = df_new d2 h2
              in case column (objs h3 data) ''column_1'' of
                   Inl e \<Rightarrow> (Raised e H, h3)
                 | Inr vs \<Rightarrow>
                 (case series_mean vs of
                    Inl e \<Rightarrow> (Raised e H, h3)
                  | Inr m \<Rightarrow>
                  (let mean = float_val (py_round m num_decimals)
                   in case label_values (objs h3 data) ''date_field'' of
                        Inl e \<Rightarrow> (Raised e H, h3)
                      | Inr ks \<Rightarrow>
                      (let data_box_quant = groupby_count ks vs;
                           data_box_quant = fold (set_quantile ks vs) [0, 25, 50, 75, 100]
                                              data_box_quant
                       in case box_list data_box_quant
                                 [''quantile_0'', ''quantile_25'', ''quantile_50'',
                                  ''quantile_75'', ''quantile_100''] of
                            Inl e \<Rightarrow> (Raised e H, h3)
                          | Inr data_box_list \<Rightarrow>
                              (let H' = add_data_set data_box_list ''boxplot'' y_name
                                          [(''tooltip'', PDict [(''headerFormat'',
                                              PStr ''<em>Date {point.key}</em><br/>'')])] H
                               in (return_with_options
                                     (boxplot_options py_str mean y_name title num_decimals
                                        x_name) H', h3))))))))"

section \<open>Notions the properties are stated with\<close>

text \<open>The frame the reshape loop reads: the copy after the index has been stored and reset.\<close>

definition prepared :: "frame \<Rightarrow> frame" where
  "prepared d = reset_index_drop (setitem d ''date_field'' (index d))"

text \<open>What \<^verbatim>\<open>loc[:, ('date_field', name)]\<close> selects from a frame that has both labels.\<close>

definition selection :: "frame \<Rightarrow> string \<Rightarrow> frame" where
  "selection w name =
     w\<lparr>columns := filter (\<lambda>c. fst c = ''date_field'') (columns w) @
                   filter (\<lambda>c. fst c = name) (columns w)\<rparr>"

definition line_series :: "frame \<Rightarrow> (string \<times> pyval) list \<Rightarrow> string \<Rightarrow> series" where
  "line_series w kw name =
     \<lparr>sdata = values_tolist (selection w name), series_type = ''line'', sname = name, kwargs = kw\<rparr>"

text \<open>The colour the area loop gives series \<open>i\<close> when it raises nothing.\<close>

definition color_of ::
  "matplotlib \<Rightarrow> string option \<Rightarrow> (rat \<Rightarrow> rgba) \<Rightarrow> (nat \<Rightarrow> rat) \<Rightarrow> nat \<Rightarrow> string" where
  "color_of plt cmap colormap normInstance i =
     (if cmap = None then default_colors ! i else rgb2hex plt (colormap (normInstance i)))"

definition area_series :: "frame \<Rightarrow> string \<Rightarrow> string \<Rightarrow> series" where
  "area_series w color name =
     \<lparr>sdata = values_tolist (selection w name), series_type = ''area'', sname = name,
      kwargs = [(''color'', PStr color)]\<rparr>"

text \<open>The [timestamp, value] pairs of a column, row by row.\<close>

definition pairs :: "cell list \<Rightarrow> cell list \<Rightarrow> pyval list list" where
  "pairs ts vs = map2 (\<lambda>t v. [box t, box v]) ts vs"

definition numeric_columns :: "frame \<Rightarrow> bool" where
  "numeric_columns d = list_all (\<lambda>c. list_all is_Num (snd c)) (columns d)"

text \<open>The series attached to the handle, whether the call returned it or raised.\<close>

fun attached :: "outcome \<Rightarrow> series list" where
  "attached (Returned H) = data_temp H"
| "attached (Raised e H) = data_temp H"

text \<open>
  The series are the table's columns, in column order, each with one [timestamp, value]
  pair per row; and the builder returned a chart with such series.
\<close>

definition column_series :: "frame \<Rightarrow> series list \<Rightarrow> bool" where
  "column_series d ss =
     (map sname ss = columns_tolist d \<and>
      map sdata ss = map (\<lambda>c. pairs (index d) (snd c)) (columns d) \<and>
      list_all (\<lambda>s. length (sdata s) = length (index d)) ss)"

fun attaches_columns :: "frame \<Rightarrow> outcome \<Rightarrow> bool" where
  "attaches_columns d (Raised e H) = False"
| "attaches_columns d (Returned H) = column_series d (data_temp H)"

text \<open>Reading an options dictionary along a path of keys and list positions.\<close>

datatype step = Key string | Idx nat

fun child :: "step \<Rightarrow> pyval \<Rightarrow> pyval option" where
  "child (Key k) (PDict kvs) = map_of kvs k"
| "child (Idx i) (PList vs) = (if i < length vs then Some (vs ! i) else None)"
| "child s v = None"

fun get_path :: "step list \<Rightarrow> pyval \<Rightarrow> pyval option" where
  "get_path [] v = Some v"
| "get_path (s # p) v = (case child s v of None \<Rightarrow> None | Some c \<Rightarrow> get_path p c)"

definition option_at :: "step list \<Rightarrow> outcome \<Rightarrow> pyval option" where
  "option_at p out =
     (case out of Returned H \<Rightarrow> get_path p (PDict (options H)) | Raised e H \<Rightarrow> None)"

text \<open>A series made by the reshape loop from a column of the table.\<close>

definition reshaped_from :: "frame \<Rightarrow> series \<Rightarrow> bool" where
  "reshaped_from d s =
     (sname s \<in> set (columns_tolist d) \<and>
      sdata s = values_tolist (selection (prepared d) (sname s)))"

text \<open>
  The rows that pair every index entry of the table with itself, as \<^verbatim>\<open>values.tolist()\<close>
  gives the entries: the integer count of nanoseconds for an index of timestamps.
\<close>

definition self_pairs :: "frame \<Rightarrow> pyval list list" where
  "self_pairs d =
     map (\<lambda>t. [(if list_all is_Stamp (index d) then ns_value else box) t,
               (if list_all is_Stamp (index d) then ns_value else box) t])
       (index d)"

text \<open>The rows of the series attached under a label, one entry for each such series.\<close>

definition series_named :: "string \<Rightarrow> outcome \<Rightarrow> pyval list list list" where
  "series_named n out = map sdata (filter (\<lambda>s. sname s = n) (attached out))"

text \<open>The x-component of a row, and those of a series.\<close>

fun x_of :: "pyval list \<Rightarrow> pyval option" where
  "x_of [] = None"
| "x_of (x # ys) = Some x"

definition x_components :: "series \<Rightarrow> pyval option list" where
  "x_components s = map x_of (sdata s)"

text \<open>An index entry as an integer count of epoch milliseconds.\<close>

fun ms_value :: "cell \<Rightarrow> pyval" where
  "ms_value (Stamp t) = PInt (epoch_ms t)"
| "ms_value (Num v) = PNum v"

text \<open>Every series has, row by row, the index entries of the table under \<open>conv\<close> as its x-components.\<close>

definition x_are :: "(cell \<Rightarrow> pyval) \<Rightarrow> frame \<Rightarrow> series list \<Rightarrow> bool" where
  "x_are conv d ss = list_all (\<lambda>s. x_components s = map (\<lambda>c. Some (conv c)) (index d)) ss"

text \<open>Writing a value into an options dictionary at a path that exists in it.\<close>

fun put_path :: "step list \<Rightarrow> pyval \<Rightarrow> pyval \<Rightarrow> pyval" where
  "put_path [] new v = new"
| "put_path (Key k # p) new (PDict kvs) =
     PDict (map (\<lambda>e. if fst e = k then (k, put_path p new (snd e)) else e) kvs)"
| "put_path (Idx i # p) new (PList vs) =
     (if i < length vs then PList (vs[i := put_path p new (vs ! i)]) else PList vs)"
| "put_path (s # p) new v = v"

fun dict_items :: "pyval \<Rightarrow> (string \<times> pyval) list" where
  "dict_items (PDict kvs) = kvs"
| "dict_items v = []"

text \<open>The same outcome with the options of the returned chart changed by \<open>f\<close>.\<close>

fun with_options :: "(pyval \<Rightarrow> pyval) \<Rightarrow> outcome \<Rightarrow> outcome" where
  "with_options f (Returned H) = Returned (H\<lparr>options := dict_items (f (PDict (options H)))\<rparr>)"
| "with_options f (Raised e H) = Raised e H"

text \<open>
  The three places in which the options of area\_pct\_total differ from those of
  area\_stacked: the text of the y-axis title, the stacking mode, and the tooltip, which
  has a \<^verbatim>\<open>pointFormat\<close> where the stacked chart has an \<^verbatim>\<open>xDateFormat\<close>.
\<close>

definition percent_variant :: "string \<Rightarrow> int \<Rightarrow> pyval \<Rightarrow> pyval" where
  "percent_variant y_name num_decimals opts =
     put_path [Key ''yAxis'', Key ''title'', Key ''text''] (PStr (''Percent of '' @ y_name))
       (put_path [Key ''plotOptions'', Key ''area'', Key ''stacking''] (PStr ''percent'')
          (put_path [Key ''tooltip'']
             (PDict [(''shared'', PBool True),
                     (''pointFormat'', PStr pointFormat_percentage),
                     (''valueDecimals'', PInt num_decimals)])
             opts))"

text \<open>The five quantile levels, \<^verbatim>\<open>i / 100.0\<close> for the \<open>i\<close> of \<^verbatim>\<open>range(0, 125, 25)\<close>.\<close>

definition levels :: "rat list" where
  "levels = [0, 1 / 4, 1 / 2, 3 / 4, 1]"

text \<open>
  The row of a group in terms of the caller's table: the key, then the quantiles of the
  values of the rows that carry the key.
\<close>

definition box_row :: "cell list \<Rightarrow> cell list \<Rightarrow> cell \<Rightarrow> pyval list" where
  "box_row ks vs k = box k # map (\<lambda>q. float_val (quantile (group_values ks vs k) q)) levels"

text \<open>The mean of a column of numbers, as boxplot rounds and draws it.\<close>

definition column_mean :: "cell list \<Rightarrow> rat option" where
  "column_mean vs =
     (if vs = [] then None else Some (sum_list (map cell_key vs) / of_nat (length vs)))"

text \<open>The order in which \<^verbatim>\<open>sort_values\<close> takes the rows of a table of \<open>n\<close> rows.\<close>

definition row_order :: "nat \<Rightarrow> cell list \<Rightarrow> nat list" where
  "row_order n vs = sort_key (\<lambda>r. cell_key (vs ! r)) [0..<n]"

subsection \<open>Example inputs\<close>

text \<open>A table of three days with the columns A and B, held at reference 0.\<close>

definition ex_table :: frame where
  "ex_table =
     \<lparr>index_name = None,
      index = [Stamp 1500000000000000000, Stamp 1500086400000000000, Stamp 1500172800000000000],
      columns = [(''A'', [Num 1, Num 2, Num 3]), (''B'', [Num 5, Num 4, Num (13 / 2)])]\<rparr>"

text \<open>A table that has a column labelled \<^verbatim>\<open>date_field\<close> already.\<close>

definition ex_date_field :: frame where
  "ex_date_field =
     \<lparr>index_name = None,
      index = [Stamp 1500000000000000000, Stamp 1500086400000000000],
      columns = [(''date_field'', [Num 7, Num 8])]\<rparr>"

text \<open>A table of two rows that has two columns labelled \<^verbatim>\<open>date_field\<close>.\<close>

definition ex_dup :: frame where
  "ex_dup =
     \<lparr>index_name = None,
      index = [Stamp 1500000000000000000, Stamp 1500086400000000000],
      columns = [(''date_field'', [Num 7, Num 8]), (''date_field'', [Num 9, Num 10])]\<rparr>"

text \<open>The table \<open>ex_table\<close> with its index named \<^verbatim>\<open>date_field\<close>.\<close>

definition ex_named :: frame where
  "ex_named = ex_table\<lparr>index_name := Some ''date_field''\<rparr>"

text \<open>A two-column table for boxplot: two days, five values.\<close>

definition ex_box :: frame where
  "ex_box =
     \<lparr>index_name = None,
      index = RangeIndex 5,
      columns = [(''day'', [Stamp 2, Stamp 1, Stamp 2, Stamp 1, Stamp 2]),
                 (''value'', [Num 5, Num 4, Num 6, Num 10, Num 1])]\<rparr>"

text \<open>The same table with its index named \<^verbatim>\<open>date_field\<close>, and named \<^verbatim>\<open>column_1\<close>.\<close>

definition ex_box_key :: frame where
  "ex_box_key = ex_box\<lparr>index_name := Some ''date_field''\<rparr>"

definition ex_box_value :: frame where
  "ex_box_value = ex_box\<lparr>index_name := Some ''column_1''\<rparr>"

text \<open>A table without rows and with 101 columns, labelled 0 to 100.\<close>

definition ex_wide :: frame where
  "ex_wide = \<lparr>index_name = None, index = [], columns = map (\<lambda>i. (str_nat i, [])) [0..<101]\<rparr>"

definition ex_heap :: "frame \<Rightarrow> heap" where
  "ex_heap d = \<lparr>objs = (\<lambda>r. d), next_ref = 1\<rparr>"

definition ex_heap2 :: "frame \<Rightarrow> frame \<Rightarrow> heap" where
  "ex_heap2 d d2 = \<lparr>objs = (\<lambda>r. if r = 0 then d else d2), next_ref = 2\<rparr>"

definition ex_plt :: matplotlib where
  "ex_plt =
     \<lparr>Normalize = (\<lambda>n i. if n = 0 then 0 else of_nat i / of_nat n),
      get_cmap = (\<lambda>name. if name = ''RdYlBu'' then Inr (\<lambda>x. (x, x, x, 1)) else Inl ValueError),
      rgb2hex = (\<lambda>c. ''#000000'')\<rparr>"

definition ex_str :: "pyval \<Rightarrow> string" where
  "ex_str v = (if v = PNum (26 / 5) then ''5.2'' else ''?'')"

section \<open>The store\<close>

lemma objs_alloc [simp]: "objs (alloc d h) r = (if r = next_ref h then d else objs h r)"
  by (simp add: alloc_def)

lemma next_ref_alloc [simp]: "next_ref (alloc d h) = Suc (next_ref h)"
  by (simp add: alloc_def)

lemma objs_store [simp]: "objs (store r d h) r' = (if r' = r then d else objs h r')"
  by (simp add: store_def)

lemma next_ref_store [simp]: "next_ref (store r d h) = next_ref h"
  by (simp add: store_def)

lemma line_chart_frame:
  "r < next_ref h \<Longrightarrow>
   objs (snd (line_chart tbl y_name title range_sel num_decimals legend figsize_x figsize_y h)) r
     = objs h r"
  by (simp add: line_chart_def df_copy_def df_new_def df_setitem_def Let_def
           split: sum.split prod.split)

lemma line_customline_frame:
  "r < next_ref h \<Longrightarrow>
   objs (snd (line_customline tbl plotline_date y_name title range_sel num_decimals line_text
                legend figsize_x figsize_y pd_Timestamp h)) r
     = objs h r"
  by (simp add: line_customline_def df_copy_def df_new_def df_setitem_def Let_def
           split: sum.split prod.split)

lemma area_stacked_frame:
  "r < next_ref h \<Longrightarrow>
   objs (snd (area_stacked tbl y_name title range_sel num_decimals legend norm_arg cmap
                figsize_x figsize_y plt h)) r
     = objs h r"
  by (simp add: area_stacked_def df_copy_def df_new_def df_setitem_def Let_def
           split: sum.split prod.split)

lemma area_pct_total_frame:
  "r < next_ref h \<Longrightarrow>
   objs (snd (area_pct_total tbl y_name title range_sel num_decimals legend norm_arg cmap
                figsize_x figsize_y plt h)) r
     = objs h r"
  by (simp add: area_pct_total_def df_copy_def df_new_def df_setitem_def Let_def
           split: sum.split prod.split)

lemma line_secondary_y_frame:
  "r < next_ref h \<Longrightarrow>
   objs (snd (line_secondary_y tbl tbl' secondy_axis_name y_name title range_sel
                num_decimals figsize_x figsize_y h)) r
     = objs h r"
  by (simp add: line_secondary_y_def df_copy_def df_new_def df_setitem_def Let_def
           split: sum.split prod.split)

lemma boxplot_frame:
  "r < next_ref h \<Longrightarrow>
   objs (snd (boxplot tbl y_name title num_decimals x_name figsize_x figsize_y py_str h)) r
     = objs h r"
  by (simp add: boxplot_def df_copy_def df_new_def Let_def split: sum.split prod.split)

lemma line_pct_change_frame:
  "r < next_ref h \<Longrightarrow>
   objs (snd (line_pct_change tbl y_name title range_sel num_decimals legend figsize_x
                figsize_y h)) r
     = objs h r"
  by (simp add: line_pct_change_def df_copy_def df_new_def df_setitem_def Let_def
           split: sum.split prod.split)

text \<open>
  C8. No builder changes a table of the caller: every frame that the store held before
  the call (every reference below \<open>next_ref\<close>, the caller's table among them) is the same
  frame, index, columns and values, after the call; whatever the builder writes, it
  writes to objects it has made itself.
\<close>

theorem builders_leave_tables_unchanged:
  assumes "r < next_ref h"
  shows
    "objs (snd (line_chart tbl y_name title range_sel num_decimals legend figsize_x
                  figsize_y h)) r = objs h r \<and>
     objs (snd (line_customline tbl plotline_date y_name title range_sel num_decimals
                  line_text legend figsize_x figsize_y pd_Timestamp h)) r = objs h r \<and>
     objs (snd (area_stacked tbl y_name title range_sel num_decimals legend norm_arg cmap
                  figsize_x figsize_y plt h)) r = objs h r \<and>
     objs (snd (area_pct_total tbl y_name title range_sel num_decimals legend norm_arg cmap
                  figsize_x figsize_y plt h)) r = objs h r \<and>
     objs (snd (line_secondary_y tbl tbl' secondy_axis_name y_name title range_sel
                  num_decimals figsize_x figsize_y h)) r = objs h r \<and>
     objs (snd (boxplot tbl y_name title num_decimals x_name figsize_x figsize_y py_str h)) r
       = objs h r \<and>
     objs (snd (line_pct_change tbl y_name title range_sel num_decimals legend figsize_x
                  figsize_y h)) r = objs h r"
  using assms
  by (simp only: line_chart_frame line_customline_frame area_stacked_frame
        area_pct_total_frame line_secondary_y_frame boxplot_frame line_pct_change_frame)

theorem builders_leave_tables_unchanged_witness:
  "(0::nat) < next_ref (ex_heap2 ex_table ex_box) \<and>
   objs (snd (line_chart 0 ''y'' ''t'' (Enum three_month) 2 True 900 700
                (ex_heap2 ex_table ex_box))) 0 = ex_table \<and>
   objs (snd (line_secondary_y 0 0 ''z'' ''y'' ''t'' (Enum three_month) 2 900 700
                (ex_heap2 ex_table ex_box))) 0 = ex_table \<and>
   objs (snd (boxplot 1 ''y'' ''t'' 2 ''Date'' 900 700 ex_str (ex_heap2 ex_table ex_box))) 1
     = ex_box"
proof -
  have valid: "(0::nat) < next_ref (ex_heap2 ex_table ex_box)"
    and valid': "(1::nat) < next_ref (ex_heap2 ex_table ex_box)"
    by (simp_all add: ex_heap2_def)
  from builders_leave_tables_unchanged [OF valid, where tbl = 0 and tbl' = 0]
    builders_leave_tables_unchanged [OF valid', where tbl = 1 and py_str = ex_str]
  show ?thesis
    using valid by (simp add: ex_heap2_def)
qed

section \<open>boxplot on a table that has not two columns\<close>

text \<open>
  C10. When the table does not have exactly two columns, boxplot raises (ValueError, from
  the assignment of the two column names) and returns no chart; the handle has no series
  attached when the exception leaves the builder.
\<close>

theorem boxplot_wrong_column_count:
  assumes "length (columns (objs h tbl)) \<noteq> 2"
  shows "fst (boxplot tbl y_name title num_decimals x_name figsize_x figsize_y py_str h) =
           Raised ValueError (Highchart figsize_x figsize_y) \<and>
         attached (fst (boxplot tbl y_name title num_decimals x_name figsize_x figsize_y
                          py_str h)) = []"
  using assms
  by (simp add: boxplot_def df_copy_def df_new_def set_columns_def Let_def Highchart_def)

theorem boxplot_wrong_column_count_witness:
  "length (columns (objs (ex_heap ex_date_field) 0)) \<noteq> 2 \<and>
   fst (boxplot 0 ''y'' ''t'' 2 ''Date'' 900 700 ex_str (ex_heap ex_date_field)) =
     Raised ValueError (Highchart 900 700) \<and>
   attached (fst (boxplot 0 ''y'' ''t'' 2 ''Date'' 900 700 ex_str (ex_heap ex_date_field))) = []"
proof -
  have cols: "length (columns (objs (ex_heap ex_date_field) 0)) \<noteq> 2"
    by (simp add: ex_heap_def ex_date_field_def)
  from boxplot_wrong_column_count [OF cols] cols show ?thesis
    by (simp add: Highchart_def)
qed

section \<open>The option values the library accepts\<close>

lemma return_with_options_accepted:
  "\<not> has_int64 (PDict opts) \<Longrightarrow> return_with_options opts H = Returned (put_options opts H)"
  by (simp add: return_with_options_def set_dict_options_def)

lemma return_with_options_refused:
  "has_int64 (PDict opts) \<Longrightarrow> return_with_options opts H = Raised OptionTypeError H"
  by (simp add: return_with_options_def set_dict_options_def)

lemma has_int64_axisFormatDateTime: "\<not> has_int64 (PDict axisFormatDateTime)"
  by (simp add: axisFormatDateTime_def)

lemma line_chart_options_accepted:
  "\<not> has_int64 (PDict (line_chart_options y_name title range_sel num_decimals legend))"
  by (simp add: line_chart_options_def)

lemma line_customline_options_refused:
  "has_int64 (PDict (line_customline_options ns y_name title range_sel num_decimals line_text
                       legend))"
  by (simp add: line_customline_options_def)

lemma area_stacked_options_accepted:
  "\<not> has_int64 (PDict (area_stacked_options y_name title range_sel num_decimals legend))"
  by (simp add: area_stacked_options_def axisFormatDateTime_def)

lemma area_pct_total_options_accepted:
  "\<not> has_int64 (PDict (area_pct_total_options y_name title range_sel num_decimals legend))"
  by (simp add: area_pct_total_options_def axisFormatDateTime_def)

lemma line_secondary_y_options_accepted:
  "\<not> has_int64 (PDict (line_secondary_y_options secondy_axis_name y_name title range_sel
                          num_decimals))"
  by (simp add: line_secondary_y_options_def)

lemma line_pct_change_options_accepted:
  "\<not> has_int64 (PDict (line_pct_change_options y_name title range_sel num_decimals legend))"
  by (simp add: line_pct_change_options_def)

lemma has_int64_float_val: "\<not> has_int64 (float_val x)"
  by (cases x) simp_all

lemma boxplot_options_accepted:
  "\<not> has_int64 (PDict (boxplot_options py_str (float_val m) y_name title num_decimals x_name))"
  by (simp add: boxplot_options_def assoc_def axisFormatDateTime_def has_int64_float_val)

lemmas options_returned =
  return_with_options_accepted [OF line_chart_options_accepted]
  return_with_options_refused [OF line_customline_options_refused]
  return_with_options_accepted [OF area_stacked_options_accepted]
  return_with_options_accepted [OF area_pct_total_options_accepted]
  return_with_options_accepted [OF line_secondary_y_options_accepted]
  return_with_options_accepted [OF line_pct_change_options_accepted]
  return_with_options_accepted [OF boxplot_options_accepted]

section \<open>Assigning a column\<close>

lemma map_fst_lay_across: "map fst (lay_across name vals j cs) = map fst cs"
  by (induction cs arbitrary: j) simp_all

lemma filter_lay_across:
  "g \<noteq> name \<Longrightarrow> filter (\<lambda>c. fst c = g) (lay_across name vals j cs) = filter (\<lambda>c. fst c = g) cs"
  by (induction cs arbitrary: j) simp_all

lemma columns_tolist_setitem:
  "columns_tolist (setitem d name vals) =
     (if name \<in> set (columns_tolist d) then columns_tolist d else columns_tolist d @ [name])"
proof -
  have "map fst (map (\<lambda>c. if fst c = name then (name, vals) else c) cs) = map fst cs" for cs
    by (induction cs) simp_all
  then show ?thesis
    by (simp add: setitem_def columns_tolist_def Let_def map_fst_lay_across count_list_0_iff)
qed

lemma index_setitem: "index (setitem d name vals) = index d"
  by (simp add: setitem_def Let_def)

lemma setitem_absent:
  "name \<notin> set (columns_tolist d) \<Longrightarrow> columns (setitem d name vals) = columns d @ [(name, vals)]"
  by (simp add: setitem_def Let_def count_list_0_iff)

lemma setitem_once:
  "count_list (columns_tolist d) name = 1 \<Longrightarrow>
   columns (setitem d name vals) = map (\<lambda>c. if fst c = name then (name, vals) else c) (columns d)"
  by (simp add: setitem_def Let_def)

lemma filter_setitem_other:
  "g \<noteq> name \<Longrightarrow>
   filter (\<lambda>c. fst c = g) (columns (setitem d name vals)) = filter (\<lambda>c. fst c = g) (columns d)"
proof -
  assume ne: "g \<noteq> name"
  then have "filter (\<lambda>c. fst c = g) (map (\<lambda>c. if fst c = name then (name, vals) else c) cs)
               = filter (\<lambda>c. fst c = g) cs" for cs
    by (induction cs) simp_all
  with ne show ?thesis
    by (simp add: setitem_def Let_def filter_lay_across)
qed

section \<open>The reshape loop\<close>

lemma filter_fst_unique:
  "distinct (map fst cs) \<Longrightarrow> (n, vs) \<in> set cs \<Longrightarrow> filter (\<lambda>c. fst c = n) cs = [(n, vs)]"
proof (induction cs)
  case Nil
  then show ?case by simp
next
  case (Cons c cs)
  show ?case
  proof (cases "c = (n, vs)")
    case True
    with Cons.prems(1) have "filter (\<lambda>c. fst c = n) cs = []"
      by (auto simp: filter_empty_conv rev_image_eqI)
    with True show ?thesis by simp
  next
    case False
    with Cons.prems have mem: "(n, vs) \<in> set cs" by simp
    with Cons.prems(1) have "fst c \<noteq> n" by (auto simp: rev_image_eqI)
    with Cons.IH Cons.prems(1) mem show ?thesis by simp
  qed
qed

lemma filter_fst_absent:
  "n \<notin> set (map fst cs) \<Longrightarrow> filter (\<lambda>c. fst c = n) cs = []"
  by (auto simp: filter_empty_conv rev_image_eqI)

lemma loc_cols_pair:
  assumes "''date_field'' \<in> set (columns_tolist w)" and "name \<in> set (columns_tolist w)"
  shows "loc_cols w [''date_field'', name] = Inr (selection w name)"
  using assms by (simp add: loc_cols_def selection_def)

lemma add_lines_Inr:
  assumes "''date_field'' \<in> set (columns_tolist w)" and "set names \<subseteq> set (columns_tolist w)"
  shows "add_lines w kw names H = Inr (H\<lparr>data_temp := data_temp H @ map (line_series w kw) names\<rparr>)"
  using assms(2)
proof (induction names arbitrary: H)
  case Nil
  show ?case by simp
next
  case (Cons name rest)
  from Cons.prems have "name \<in> set (columns_tolist w)" and "set rest \<subseteq> set (columns_tolist w)"
    by simp_all
  with Cons.IH assms(1) show ?case
    by (simp add: loc_cols_pair add_data_set_def line_series_def)
qed

lemma add_areas_Inr:
  assumes "''date_field'' \<in> set (columns_tolist w)" and "set names \<subseteq> set (columns_tolist w)"
    and "cmap = None \<longrightarrow> i0 + length names \<le> length default_colors"
  shows "add_areas plt w cmap colormap normInstance (enumerate i0 names) H =
           Inr (H\<lparr>data_temp := data_temp H @
                  map (\<lambda>p. area_series w (color_of plt cmap colormap normInstance (fst p)) (snd p))
                    (enumerate i0 names)\<rparr>)"
  using assms(2,3)
proof (induction names arbitrary: i0 H)
  case Nil
  show ?case by simp
next
  case (Cons name rest)
  from Cons.prems have lab: "name \<in> set (columns_tolist w)" "set rest \<subseteq> set (columns_tolist w)"
    and room: "cmap = None \<longrightarrow> Suc i0 + length rest \<le> length default_colors"
    by simp_all
  show ?case
  proof (cases cmap)
    case None
    with Cons.prems(2) have "getitem default_colors i0 = Inr (default_colors ! i0)"
      by (simp add: getitem_def)
    with None Cons.IH [OF lab(2) room] assms(1) lab(1) show ?thesis
      by (simp add: loc_cols_pair add_data_set_def area_series_def color_of_def)
  next
    case (Some c)
    with Cons.IH [OF lab(2) room] assms(1) lab(1) show ?thesis
      by (simp add: loc_cols_pair add_data_set_def area_series_def color_of_def)
  qed
qed

lemma length_default_colors: "length default_colors = 100"
  by (simp add: default_colors_def palette_def length_concat sum_list_replicate)

lemma columns_tolist_prepared:
  "columns_tolist (prepared d) =
     (if ''date_field'' \<in> set (columns_tolist d) then columns_tolist d
      else columns_tolist d @ [''date_field''])"
proof -
  have "columns_tolist (reset_index_drop x) = columns_tolist x" for x
    by (simp add: reset_index_drop_def columns_tolist_def)
  then show ?thesis
    by (simp add: prepared_def columns_tolist_setitem)
qed

lemma prepared_has_labels:
  "''date_field'' \<in> set (columns_tolist (prepared d))"
  "set (columns_tolist d) \<subseteq> set (columns_tolist (prepared d))"
  by (auto simp: columns_tolist_prepared)

lemma length_index_prepared: "length (index (prepared d)) = length (index d)"
  by (simp add: prepared_def reset_index_drop_def index_setitem RangeIndex_def)

lemma index_selection_prepared: "length (index (selection (prepared d) n)) = length (index d)"
  by (simp add: selection_def length_index_prepared)

lemma line_loop_prepared:
  "add_lines (prepared d) kw (columns_tolist d) H =
     Inr (H\<lparr>data_temp := data_temp H @ map (line_series (prepared d) kw) (columns_tolist d)\<rparr>)"
  by (rule add_lines_Inr) (rule prepared_has_labels)+

lemma area_loop_prepared:
  assumes "cmap = None \<longrightarrow> length (columns d) \<le> 100"
  shows "add_areas plt (prepared d) cmap colormap normInstance (enumerate 0 (columns_tolist d)) H =
     Inr (H\<lparr>data_temp := data_temp H @
            map (\<lambda>p. area_series (prepared d) (color_of plt cmap colormap normInstance (fst p)) (snd p))
              (enumerate 0 (columns_tolist d))\<rparr>)"
proof (rule add_areas_Inr)
  show "cmap = None \<longrightarrow> 0 + length (columns_tolist d) \<le> length default_colors"
    using assms by (simp add: columns_tolist_def length_default_colors)
qed (rule prepared_has_labels)+

subsection \<open>What each builder returns\<close>

lemma line_chart_fst:
  "fst (line_chart tbl y_name title range_sel num_decimals legend figsize_x figsize_y h) =
     Returned (put_options (line_chart_options y_name title range_sel num_decimals legend)
       ((Highstock figsize_x figsize_y)
          \<lparr>data_temp := map (line_series (prepared (objs h tbl)) []) (columns_tolist (objs h tbl))\<rparr>))"
  by (simp add: line_chart_def df_copy_def df_new_def df_setitem_def Let_def
        line_loop_prepared [unfolded prepared_def] prepared_def Highstock_def options_returned)

lemma line_pct_change_fst:
  "fst (line_pct_change tbl y_name title range_sel num_decimals legend figsize_x figsize_y h) =
     Returned (put_options (line_pct_change_options y_name title range_sel num_decimals legend)
       ((Highstock figsize_x figsize_y)
          \<lparr>data_temp := map (line_series (prepared (objs h tbl)) []) (columns_tolist (objs h tbl))\<rparr>))"
  by (simp add: line_pct_change_def df_copy_def df_new_def df_setitem_def Let_def
        line_loop_prepared [unfolded prepared_def] prepared_def Highstock_def options_returned)

lemma line_customline_fst:
  "fst (line_customline tbl plotline_date y_name title range_sel num_decimals line_text legend
          figsize_x figsize_y pd_Timestamp h) =
     (let H = (Highstock figsize_x figsize_y)
          \<lparr>data_temp := map (line_series (prepared (objs h tbl)) []) (columns_tolist (objs h tbl))\<rparr>
      in case pd_Timestamp plotline_date of
           Inl e \<Rightarrow> Raised e H
         | Inr ns \<Rightarrow> Raised OptionTypeError H)"
  by (simp add: line_customline_def df_copy_def df_new_def df_setitem_def Let_def
        line_loop_prepared [unfolded prepared_def] prepared_def Highstock_def options_returned
      split: sum.split)

lemma area_stacked_fst:
  assumes "cmap = None \<longrightarrow> length (columns (objs h tbl)) \<le> 100"
    and "get_cmap plt (cmap_or cmap) = Inr colormap"
  shows "fst (area_stacked tbl y_name title range_sel num_decimals legend norm_arg cmap
                figsize_x figsize_y plt h) =
     Returned (put_options (area_stacked_options y_name title range_sel num_decimals legend)
       ((Highstock figsize_x figsize_y)
          \<lparr>data_temp :=
             map (\<lambda>p. area_series (prepared (objs h tbl))
                        (color_of plt cmap colormap
                           ((case norm_arg of None \<Rightarrow> Normalize plt | Some n \<Rightarrow> n)
                              (length (columns_tolist (objs h tbl)))) (fst p)) (snd p))
               (enumerate 0 (columns_tolist (objs h tbl)))\<rparr>))"
  using assms(2)
  by (simp add: area_stacked_def df_copy_def df_new_def df_setitem_def Let_def
        area_loop_prepared [OF assms(1), unfolded prepared_def] prepared_def Highstock_def
        options_returned)

lemma area_pct_total_fst:
  assumes "cmap = None \<longrightarrow> length (columns (objs h tbl)) \<le> 100"
    and "get_cmap plt (cmap_or cmap) = Inr colormap"
  shows "fst (area_pct_total tbl y_name title range_sel num_decimals legend norm_arg cmap
                figsize_x figsize_y plt h) =
     Returned (put_options (area_pct_total_options y_name title range_sel num_decimals legend)
       ((Highstock figsize_x figsize_y)
          \<lparr>data_temp :=
             map (\<lambda>p. area_series (prepared (objs h tbl))
                        (color_of plt cmap colormap
                           ((case norm_arg of None \<Rightarrow> Normalize plt | Some n \<Rightarrow> n)
                              (length (columns_tolist (objs h tbl)))) (fst p)) (snd p))
               (enumerate 0 (columns_tolist (objs h tbl)))\<rparr>))"
  using assms(2)
  by (simp add: area_pct_total_def df_copy_def df_new_def df_setitem_def Let_def
        area_loop_prepared [OF assms(1), unfolded prepared_def] prepared_def Highstock_def
        options_returned)

lemma selection_plain:
  assumes "''date_field'' \<notin> set (columns_tolist d)" and "distinct (columns_tolist d)"
    and "(n, vs) \<in> set (columns d)"
  shows "columns (selection (prepared d) n) = [(''date_field'', index d), (n, vs)]"
proof -
  have cols: "columns (prepared d) = columns d @ [(''date_field'', index d)]"
    using assms(1) by (simp add: prepared_def reset_index_drop_def setitem_absent)
  have no: "filter (\<lambda>c. fst c = ''date_field'') (columns d) = []"
    using assms(1) by (simp add: columns_tolist_def filter_fst_absent)
  have "n \<in> set (columns_tolist d)"
    using assms(3) by (auto simp: columns_tolist_def rev_image_eqI)
  with assms(1) have ne: "n \<noteq> ''date_field''" by blast
  have one: "filter (\<lambda>c. fst c = n) (columns d) = [(n, vs)]"
    using assms(2,3) by (simp add: columns_tolist_def filter_fst_unique)
  show ?thesis
    using ne by (simp add: selection_def cols no one)
qed

lemma values_tolist_plain:
  assumes "''date_field'' \<notin> set (columns_tolist d)" and "distinct (columns_tolist d)"
    and "(n, vs) \<in> set (columns d)" and "wf_frame d" and "numeric_columns d"
  shows "values_tolist (selection (prepared d) n) = pairs (index d) vs"
proof -
  let ?s = "selection (prepared d) n"
  have cols: "columns ?s = [(''date_field'', index d), (n, vs)]"
    using assms(1-3) by (rule selection_plain)
  have len: "length vs = length (index d)"
    using assms(3,4) by (auto simp: wf_frame_def list_all_iff)
  have num: "list_all is_Num vs"
    using assms(3,5) by (auto simp: numeric_columns_def list_all_iff)
  have conv: "(if all_datetime ?s then ns_value else box) (vs ! r) = box (vs ! r)
            \<and> (if all_datetime ?s then ns_value else box) (index d ! r) = box (index d ! r)"
    if "r < length (index d)" for r
  proof -
    from that len have mem: "vs ! r \<in> set vs" by simp
    with num have "is_Num (vs ! r)" by (simp add: list_all_iff)
    then have "\<not> is_Stamp (vs ! r)" by (cases "vs ! r") simp_all
    with mem have "\<not> list_all is_Stamp vs" by (auto simp: list_all_iff)
    then have "\<not> all_datetime ?s" by (simp add: all_datetime_def cols)
    then show ?thesis by simp
  qed
  show ?thesis
    unfolding values_tolist_def pairs_def
    by (rule nth_equalityI) (simp_all add: cols len index_selection_prepared conv)
qed

lemma length_pairs:
  assumes "wf_frame d" and "c \<in> set (columns d)"
  shows "length (pairs (index d) (snd c)) = length (index d)"
  using assms by (simp add: pairs_def wf_frame_def list_all_iff)

lemma reshaped_columns:
  assumes "''date_field'' \<notin> set (columns_tolist d)" and "distinct (columns_tolist d)"
    and "wf_frame d" and "numeric_columns d"
  shows "map (\<lambda>n. values_tolist (selection (prepared d) n)) (columns_tolist d) =
           map (\<lambda>c. pairs (index d) (snd c)) (columns d)"
proof -
  have "values_tolist (selection (prepared d) (fst c)) = pairs (index d) (snd c)"
    if "c \<in> set (columns d)" for c
    using values_tolist_plain [OF assms(1,2) _ assms(3,4), of "fst c" "snd c"] that by simp
  then show ?thesis
    by (simp add: columns_tolist_def)
qed

lemma map_snd_enumerate: "map (\<lambda>p. f (snd p)) (enumerate i xs) = map f xs"
  by (induction xs arbitrary: i) simp_all

lemma column_series_lines:
  assumes "''date_field'' \<notin> set (columns_tolist d)" and "distinct (columns_tolist d)"
    and "wf_frame d" and "numeric_columns d"
  shows "column_series d (map (line_series (prepared d) kw) (columns_tolist d))"
proof -
  have names: "map sname (map (line_series (prepared d) kw) (columns_tolist d)) = columns_tolist d"
    by (simp add: line_series_def comp_def)
  have rows: "map sdata (map (line_series (prepared d) kw) (columns_tolist d)) =
                map (\<lambda>c. pairs (index d) (snd c)) (columns d)"
    using reshaped_columns [OF assms] by (simp add: line_series_def comp_def)
  have "length (sdata s) = length (index d)"
    if "s \<in> set (map (line_series (prepared d) kw) (columns_tolist d))" for s
  proof -
    from that have "sdata s \<in> set (map sdata (map (line_series (prepared d) kw) (columns_tolist d)))"
      by (simp del: map_map)
    with rows obtain c where "c \<in> set (columns d)" and "sdata s = pairs (index d) (snd c)"
      by auto
    with assms(3) show ?thesis by (simp add: length_pairs)
  qed
  then have "list_all (\<lambda>s. length (sdata s) = length (index d))
               (map (line_series (prepared d) kw) (columns_tolist d))"
    unfolding list_all_iff by blast
  with names rows show ?thesis
    unfolding column_series_def by blast
qed

lemma column_series_areas:
  assumes "''date_field'' \<notin> set (columns_tolist d)" and "distinct (columns_tolist d)"
    and "wf_frame d" and "numeric_columns d"
  shows "column_series d
           (map (\<lambda>p. area_series (prepared d) (color (fst p)) (snd p))
              (enumerate 0 (columns_tolist d)))"
proof -
  let ?ss = "map (\<lambda>p. area_series (prepared d) (color (fst p)) (snd p))
               (enumerate 0 (columns_tolist d))"
  have names: "map sname ?ss = columns_tolist d"
    by (simp add: area_series_def comp_def map_snd_enumerate)
  have "map sdata ?ss = map (\<lambda>n. values_tolist (selection (prepared d) n)) (columns_tolist d)"
    by (simp add: area_series_def comp_def
          map_snd_enumerate [where f = "\<lambda>n. values_tolist (selection (prepared d) n)"])
  then have rows: "map sdata ?ss = map (\<lambda>c. pairs (index d) (snd c)) (columns d)"
    by (simp only: reshaped_columns [OF assms])
  have "length (sdata s) = length (index d)" if "s \<in> set ?ss" for s
  proof -
    from that have "sdata s \<in> set (map sdata ?ss)"
      by (simp del: map_map)
    with rows obtain c where "c \<in> set (columns d)" and "sdata s = pairs (index d) (snd c)"
      by auto
    with assms(3) show ?thesis by (simp add: length_pairs)
  qed
  then have "list_all (\<lambda>s. length (sdata s) = length (index d)) ?ss"
    unfolding list_all_iff by blast
  with names rows show ?thesis
    unfolding column_series_def by blast
qed

section \<open>Columns to series\<close>

text \<open>
  C1 as it is written, for every table: false for a table that has a column labelled
  \<^verbatim>\<open>date_field\<close>. The table \<open>ex_date_field\<close> is well formed and numeric, and the series
  that line\_chart attaches for its column does not hold the column's values 7 and 8.
\<close>

theorem ex_date_field_not_attached:
  "wf_frame ex_date_field \<and> numeric_columns ex_date_field \<and>
   \<not> attaches_columns ex_date_field
       (fst (line_chart 0 ''y'' ''t'' (Enum three_month) 2 True 900 700 (ex_heap ex_date_field)))"
  by code_simp

text \<open>
  C1, amended. For a table whose columns hold numbers, carry distinct labels and are none of
  them labelled \<^verbatim>\<open>date_field\<close>, each of line\_chart, area\_stacked, area\_pct\_total and
  line\_pct\_change returns a chart with exactly one series per column, in column order and
  under the column's label, and the series of a column is one [timestamp, value] pair per
  row, in row order, with the column's values; for the area builders the colormap name
  must be known to matplotlib and, without a colormap, the table must have at most 100
  columns. line\_customline attaches the same series to its chart handle; whether it then
  returns the handle is not part of the statement.
\<close>

theorem reshape_attaches_columns:
  assumes "wf_frame (objs h tbl)" and "numeric_columns (objs h tbl)"
    and "distinct (columns_tolist (objs h tbl))"
    and "''date_field'' \<notin> set (columns_tolist (objs h tbl))"
  shows
    "attaches_columns (objs h tbl)
       (fst (line_chart tbl y_name title range_sel num_decimals legend figsize_x figsize_y h)) \<and>
     column_series (objs h tbl)
       (attached (fst (line_customline tbl plotline_date y_name title range_sel num_decimals
                         line_text legend figsize_x figsize_y pd_Timestamp h))) \<and>
     (\<not> isl (get_cmap plt (cmap_or cmap)) \<and>
      (cmap = None \<longrightarrow> length (columns (objs h tbl)) \<le> 100) \<longrightarrow>
      attaches_columns (objs h tbl)
        (fst (area_stacked tbl y_name title range_sel num_decimals legend norm_arg cmap
                figsize_x figsize_y plt h)) \<and>
      attaches_columns (objs h tbl)
        (fst (area_pct_total tbl y_name title range_sel num_decimals legend norm_arg cmap
                figsize_x figsize_y plt h))) \<and>
     attaches_columns (objs h tbl)
       (fst (line_pct_change tbl y_name title range_sel num_decimals legend figsize_x
               figsize_y h))"
proof -
  note lines = column_series_lines [OF assms(4,3,1,2)]
  note areas = column_series_areas [OF assms(4,3,1,2)]
  have a: "attaches_columns (objs h tbl)
       (fst (line_chart tbl y_name title range_sel num_decimals legend figsize_x figsize_y h))"
    by (simp add: line_chart_fst put_options_def Highstock_def lines)
  have b: "column_series (objs h tbl)
       (attached (fst (line_customline tbl plotline_date y_name title range_sel num_decimals
                         line_text legend figsize_x figsize_y pd_Timestamp h)))"
    by (simp add: line_customline_fst Highstock_def Let_def lines split: sum.split)
  have c: "attaches_columns (objs h tbl)
        (fst (area_stacked tbl y_name title range_sel num_decimals legend norm_arg cmap
                figsize_x figsize_y plt h)) \<and>
      attaches_columns (objs h tbl)
        (fst (area_pct_total tbl y_name title range_sel num_decimals legend norm_arg cmap
                figsize_x figsize_y plt h))"
    if "\<not> isl (get_cmap plt (cmap_or cmap))"
      and room: "cmap = None \<longrightarrow> length (columns (objs h tbl)) \<le> 100"
  proof -
    from that(1) obtain colormap where cm: "get_cmap plt (cmap_or cmap) = Inr colormap"
      by (cases "get_cmap plt (cmap_or cmap)") simp_all
    show ?thesis
      by (simp add: area_stacked_fst [OF room cm] area_pct_total_fst [OF room cm]
            put_options_def Highstock_def areas)
  qed
  have d: "attaches_columns (objs h tbl)
       (fst (line_pct_change tbl y_name title range_sel num_decimals legend figsize_x
               figsize_y h))"
    by (simp add: line_pct_change_fst put_options_def Highstock_def lines)
  from a b c d show ?thesis by blast
qed

theorem reshape_attaches_columns_witness:
  "wf_frame ex_table \<and> numeric_columns ex_table \<and> distinct (columns_tolist ex_table) \<and>
   ''date_field'' \<notin> set (columns_tolist ex_table) \<and>
   attaches_columns ex_table
     (fst (line_chart 0 ''y'' ''t'' (Enum three_month) 2 True 900 700 (ex_heap ex_table))) \<and>
   column_series ex_table
     (attached (fst (line_customline 0 ''2017-07-15'' ''y'' ''t'' (Enum three_month) 2 ''x'' True
                       900 700 (\<lambda>s. Inr 1500076800000000000) (ex_heap ex_table)))) \<and>
   attaches_columns ex_table
     (fst (area_stacked 0 ''y'' ''t'' (Enum three_month) 2 True None None 900 700 ex_plt
             (ex_heap ex_table)))"
proof -
  have obj: "objs (ex_heap ex_table) 0 = ex_table"
    by (simp add: ex_heap_def)
  have hyps: "wf_frame ex_table" "numeric_columns ex_table" "distinct (columns_tolist ex_table)"
    "''date_field'' \<notin> set (columns_tolist ex_table)"
    by (simp_all add: wf_frame_def numeric_columns_def columns_tolist_def ex_table_def)
  have env: "\<not> isl (get_cmap ex_plt (cmap_or None))" "length (columns ex_table) \<le> 100"
    by (simp_all add: ex_plt_def ex_table_def)
  from reshape_attaches_columns [of "ex_heap ex_table" 0, unfolded obj, OF hyps,
      where plt = ex_plt and cmap = None and plotline_date = "''2017-07-15''"
        and pd_Timestamp = "\<lambda>s. Inr 1500076800000000000"]
  show ?thesis
    using hyps env by blast
qed

section \<open>The palette of the area builders\<close>

lemma add_areas_IndexError:
  assumes "''date_field'' \<in> set (columns_tolist w)" and "set names \<subseteq> set (columns_tolist w)"
    and "length default_colors < i0 + length names" and "i0 \<le> length default_colors"
  shows "add_areas plt w None colormap normInstance (enumerate i0 names) H =
           Inl (IndexError,
                H\<lparr>data_temp := data_temp H @
                  map (\<lambda>p. area_series w (color_of plt None colormap normInstance (fst p)) (snd p))
                    (take (length default_colors - i0) (enumerate i0 names))\<rparr>)"
  using assms(2-4)
proof (induction names arbitrary: i0 H)
  case Nil
  then show ?case by simp
next
  case (Cons name rest)
  from Cons.prems have lab: "name \<in> set (columns_tolist w)" "set rest \<subseteq> set (columns_tolist w)"
    by simp_all
  show ?case
  proof (cases "i0 < length default_colors")
    case True
    then have get: "getitem default_colors i0 = Inr (default_colors ! i0)"
      by (simp add: getitem_def)
    from True Cons.prems have more: "length default_colors < Suc i0 + length rest"
      "Suc i0 \<le> length default_colors"
      by simp_all
    from True have cut: "length default_colors - i0 = Suc (length default_colors - Suc i0)"
      by simp
    show ?thesis
      using Cons.IH [OF lab(2) more] assms(1) lab(1) get
      by (simp add: loc_cols_pair add_data_set_def area_series_def color_of_def cut)
  next
    case False
    with Cons.prems have "getitem default_colors i0 = Inl IndexError" "length default_colors - i0 = 0"
      by (simp_all add: getitem_def)
    then show ?thesis by simp
  qed
qed

lemma area_stacked_unfold:
  "fst (area_stacked tbl y_name title range_sel num_decimals legend norm_arg cmap
          figsize_x figsize_y plt h) =
     (case get_cmap plt (cmap_or cmap) of
        Inl e \<Rightarrow> Raised e (Highstock figsize_x figsize_y)
      | Inr colormap \<Rightarrow>
          (case add_areas plt (prepared (objs h tbl)) cmap colormap
                  ((case norm_arg of None \<Rightarrow> Normalize plt | Some n \<Rightarrow> n)
                     (length (columns_tolist (objs h tbl))))
                  (enumerate 0 (columns_tolist (objs h tbl))) (Highstock figsize_x figsize_y) of
             Inl (e, H') \<Rightarrow> Raised e H'
           | Inr H' \<Rightarrow> Returned (put_options
               (area_stacked_options y_name title range_sel num_decimals legend) H')))"
  by (simp add: area_stacked_def df_copy_def df_new_def df_setitem_def Let_def prepared_def
        options_returned split: sum.split prod.split)

lemma area_pct_total_unfold:
  "fst (area_pct_total tbl y_name title range_sel num_decimals legend norm_arg cmap
          figsize_x figsize_y plt h) =
     (case get_cmap plt (cmap_or cmap) of
        Inl e \<Rightarrow> Raised e (Highstock figsize_x figsize_y)
      | Inr colormap \<Rightarrow>
          (case add_areas plt (prepared (objs h tbl)) cmap colormap
                  ((case norm_arg of None \<Rightarrow> Normalize plt | Some n \<Rightarrow> n)
                     (length (columns_tolist (objs h tbl))))
                  (enumerate 0 (columns_tolist (objs h tbl))) (Highstock figsize_x figsize_y) of
             Inl (e, H') \<Rightarrow> Raised e H'
           | Inr H' \<Rightarrow> Returned (put_options
               (area_pct_total_options y_name title range_sel num_decimals legend) H')))"
  by (simp add: area_pct_total_def df_copy_def df_new_def df_setitem_def Let_def prepared_def
        options_returned split: sum.split prod.split)

lemma area_loop_IndexError:
  assumes "100 < length (columns d)"
  shows "add_areas plt (prepared d) None colormap normInstance (enumerate 0 (columns_tolist d)) H =
           Inl (IndexError,
                H\<lparr>data_temp := data_temp H @
                  map (\<lambda>p. area_series (prepared d) (color_of plt None colormap normInstance (fst p)) (snd p))
                    (take 100 (enumerate 0 (columns_tolist d)))\<rparr>)"
proof -
  have "length default_colors < 0 + length (columns_tolist d)" "0 \<le> length default_colors"
    using assms by (simp_all add: length_default_colors columns_tolist_def)
  from add_areas_IndexError [OF prepared_has_labels this]
  show ?thesis by (simp add: length_default_colors)
qed

lemma length_columns_tolist: "length (columns_tolist d) = length (columns d)"
  by (simp add: columns_tolist_def)

lemma area_stacked_IndexError:
  assumes "100 < length (columns (objs h tbl))" and "get_cmap plt ''RdYlBu'' = Inr colormap"
  shows "\<exists>H. fst (area_stacked tbl y_name title range_sel num_decimals legend norm_arg None
                   figsize_x figsize_y plt h) = Raised IndexError H \<and> length (data_temp H) = 100"
  using assms
  by (simp add: area_stacked_unfold area_loop_IndexError Highstock_def length_columns_tolist)

lemma area_pct_total_IndexError:
  assumes "100 < length (columns (objs h tbl))" and "get_cmap plt ''RdYlBu'' = Inr colormap"
  shows "\<exists>H. fst (area_pct_total tbl y_name title range_sel num_decimals legend norm_arg None
                   figsize_x figsize_y plt h) = Raised IndexError H \<and> length (data_temp H) = 100"
  using assms
  by (simp add: area_pct_total_unfold area_loop_IndexError Highstock_def length_columns_tolist)

lemma default_colors_cyclic:
  assumes "i < 100"
  shows "default_colors ! i = palette ! (i mod 10)"
proof -
  have gen: "concat (replicate k xs) ! i = xs ! (i mod length xs)"
    if "i < k * length xs" for k and xs :: "string list"
    using that
  proof (induction k arbitrary: i)
    case 0
    then show ?case by simp
  next
    case (Suc k)
    show ?case
    proof (cases "i < length xs")
      case True
      then show ?thesis by (simp add: nth_append)
    next
      case False
      with Suc.prems have "i - length xs < k * length xs" by simp
      from Suc.IH [OF this] False show ?thesis
        by (simp add: nth_append le_mod_geq)
    qed
  qed
  have "length palette = 10" by (simp add: palette_def)
  with gen [of 10 palette] assms show ?thesis
    by (simp add: default_colors_def)
qed

lemma color_of_cyclic:
  "i < 100 \<Longrightarrow> color_of plt None colormap normInstance i = palette ! (i mod 10)"
  by (simp add: color_of_def default_colors_cyclic)

text \<open>
  C6. The palette is cyclic only as far as the hundred entries of \<^verbatim>\<open>default_colors\<close>
  reach: up to index 99 the colour is \<open>palette ! (i mod 10)\<close> (lemma
  \<open>default_colors_cyclic\<close>), and the series of index 100 is never coloured. Called
  without a colormap on the table \<open>ex_wide\<close> of 101 columns, area\_stacked and
  area\_pct\_total raise IndexError after attaching 100 series and return no chart.
\<close>

theorem area_palette_101_columns:
  "length (columns ex_wide) = 101 \<and>
   (\<exists>H. fst (area_stacked 0 ''y'' ''t'' (Enum three_month) 2 True None None 900 700 ex_plt
               (ex_heap ex_wide)) = Raised IndexError H \<and> length (data_temp H) = 100) \<and>
   (\<exists>H. fst (area_pct_total 0 ''y'' ''t'' (Enum three_month) 2 True None None 900 700 ex_plt
               (ex_heap ex_wide)) = Raised IndexError H \<and> length (data_temp H) = 100)"
proof -
  have obj: "objs (ex_heap ex_wide) 0 = ex_wide"
    by (simp add: ex_heap_def)
  have wide: "length (columns ex_wide) = 101"
    by (simp add: ex_wide_def)
  then have more: "100 < length (columns (objs (ex_heap ex_wide) 0))"
    by (simp add: obj)
  have cm: "get_cmap ex_plt ''RdYlBu'' = Inr (\<lambda>x. (x, x, x, 1))"
    by (simp add: ex_plt_def)
  from area_stacked_IndexError [OF more cm] area_pct_total_IndexError [OF more cm] wide
  show ?thesis by blast
qed

section \<open>The series the loops attach\<close>

lemma reshaped_from_line_series:
  "n \<in> set (columns_tolist d) \<Longrightarrow> reshaped_from d (line_series (prepared d) kw n)"
  by (simp add: reshaped_from_def line_series_def)

lemma reshaped_from_area_series:
  "n \<in> set (columns_tolist d) \<Longrightarrow> reshaped_from d (area_series (prepared d) color n)"
  by (simp add: reshaped_from_def area_series_def)

lemma line_series_all_reshaped:
  "list_all (reshaped_from d) (map (line_series (prepared d) kw) (columns_tolist d))"
  by (simp add: list_all_iff reshaped_from_line_series)

lemma snd_enumerate_mem: "p \<in> set (enumerate i xs) \<Longrightarrow> snd p \<in> set xs"
  by (cases p) (auto simp: in_set_enumerate_eq)

lemma area_series_all_reshaped:
  "list_all (reshaped_from d)
     (map (\<lambda>p. area_series (prepared d) (color (fst p)) (snd p))
        (take m (enumerate 0 (columns_tolist d))))"
proof -
  have "snd p \<in> set (columns_tolist d)" if "p \<in> set (take m (enumerate 0 (columns_tolist d)))" for p
    using that by (meson in_set_takeD snd_enumerate_mem)
  then show ?thesis
    by (simp add: list_all_iff reshaped_from_area_series)
qed

lemma line_chart_attached:
  "attached (fst (line_chart tbl y_name title range_sel num_decimals legend figsize_x figsize_y h)) =
     map (line_series (prepared (objs h tbl)) []) (columns_tolist (objs h tbl))"
  by (simp add: line_chart_fst put_options_def Highstock_def)

lemma line_pct_change_attached:
  "attached (fst (line_pct_change tbl y_name title range_sel num_decimals legend figsize_x
                    figsize_y h)) =
     map (line_series (prepared (objs h tbl)) []) (columns_tolist (objs h tbl))"
  by (simp add: line_pct_change_fst put_options_def Highstock_def)

lemma line_customline_attached:
  "attached (fst (line_customline tbl plotline_date y_name title range_sel num_decimals line_text
                    legend figsize_x figsize_y pd_Timestamp h)) =
     map (line_series (prepared (objs h tbl)) []) (columns_tolist (objs h tbl))"
  by (simp add: line_customline_fst put_options_def Highstock_def Let_def split: sum.split)

lemma area_loop_attached:
  "list_all (reshaped_from d)
     (data_temp (case add_areas plt (prepared d) cmap colormap normInstance
                        (enumerate 0 (columns_tolist d)) (Highstock figsize_x figsize_y) of
                   Inl (e, H') \<Rightarrow> H' | Inr H' \<Rightarrow> H'))"
proof (cases "cmap = None \<and> 100 < length (columns d)")
  case True
  then show ?thesis
    by (simp add: area_loop_IndexError Highstock_def area_series_all_reshaped)
next
  case False
  then have "cmap = None \<longrightarrow> length (columns d) \<le> 100" by auto
  from area_loop_prepared [OF this]
    area_series_all_reshaped [of d _ "length (enumerate 0 (columns_tolist d))"]
  show ?thesis
    by (simp add: Highstock_def)
qed

lemma area_loop_attached_Inl:
  assumes "add_areas plt (prepared d) cmap colormap normInstance
             (enumerate 0 (columns_tolist d)) (Highstock figsize_x figsize_y) = Inl (e, H')"
  shows "list_all (reshaped_from d) (data_temp H')"
  using area_loop_attached [of d plt cmap colormap normInstance figsize_x figsize_y] assms
  by simp

lemma area_loop_attached_Inr:
  assumes "add_areas plt (prepared d) cmap colormap normInstance
             (enumerate 0 (columns_tolist d)) (Highstock figsize_x figsize_y) = Inr H'"
  shows "list_all (reshaped_from d) (data_temp H')"
  using area_loop_attached [of d plt cmap colormap normInstance figsize_x figsize_y] assms
  by simp

lemma data_temp_Highstock: "data_temp (Highstock w ht) = []"
  by (simp add: Highstock_def)

lemma area_stacked_attached:
  "list_all (reshaped_from (objs h tbl))
     (attached (fst (area_stacked tbl y_name title range_sel num_decimals legend norm_arg cmap
                       figsize_x figsize_y plt h)))"
  by (auto simp: area_stacked_unfold put_options_def data_temp_Highstock
        split: sum.split prod.split
        dest: area_loop_attached_Inl area_loop_attached_Inr)

lemma area_pct_total_attached:
  "list_all (reshaped_from (objs h tbl))
     (attached (fst (area_pct_total tbl y_name title range_sel num_decimals legend norm_arg cmap
                       figsize_x figsize_y plt h)))"
  by (auto simp: area_pct_total_unfold put_options_def data_temp_Highstock
        split: sum.split prod.split
        dest: area_loop_attached_Inl area_loop_attached_Inr)

section \<open>A column labelled date\_field\<close>

lemma filter_overwritten:
  "filter (\<lambda>c. fst c = n) (map (\<lambda>c. if fst c = n then (n, v) else c) cs) =
     replicate (count_list (map fst cs) n) (n, v)"
  by (induction cs) simp_all

lemma map_nth_index: "map (\<lambda>r. f (xs ! r)) [0..<length xs] = map f xs"
  by (rule nth_equalityI) simp_all

lemma filter_eq_replicate: "filter (\<lambda>n. n = x) xs = replicate (count_list xs x) x"
  by (induction xs) simp_all

lemma values_tolist_date_field:
  assumes "count_list (columns_tolist d) ''date_field'' = 1"
  shows "values_tolist (selection (prepared d) ''date_field'') = self_pairs d"
proof -
  let ?s = "selection (prepared d) ''date_field''"
  have "columns (prepared d) =
          map (\<lambda>c. if fst c = ''date_field'' then (''date_field'', index d) else c) (columns d)"
    using assms by (simp add: prepared_def reset_index_drop_def setitem_once)
  then have cols: "columns ?s = [(''date_field'', index d), (''date_field'', index d)]"
    using assms by (simp add: selection_def filter_overwritten columns_tolist_def)
  have dt: "all_datetime ?s = list_all is_Stamp (index d)"
    by (simp add: all_datetime_def cols)
  have "values_tolist ?s =
          map (\<lambda>r. [(if list_all is_Stamp (index d) then ns_value else box) (index d ! r),
                    (if list_all is_Stamp (index d) then ns_value else box) (index d ! r)])
            [0..<length (index d)]"
    by (simp add: values_tolist_def cols dt index_selection_prepared)
  then show ?thesis
    unfolding self_pairs_def
    by (simp only: map_nth_index
          [where f = "\<lambda>t. [(if list_all is_Stamp (index d) then ns_value else box) t,
                           (if list_all is_Stamp (index d) then ns_value else box) t]"])
qed

lemma date_field_line_series:
  assumes "count_list (columns_tolist d) ''date_field'' = 1"
  shows "map sdata (filter (\<lambda>s. sname s = ''date_field'')
                      (map (line_series (prepared d) kw) (columns_tolist d))) = [self_pairs d]"
proof -
  have "map sdata (filter (\<lambda>s. sname s = ''date_field'')
                     (map (line_series (prepared d) kw) (columns_tolist d))) =
        map (\<lambda>n. values_tolist (selection (prepared d) n))
          (filter (\<lambda>n. n = ''date_field'') (columns_tolist d))"
    by (simp add: filter_map comp_def line_series_def)
  also have "\<dots> = [values_tolist (selection (prepared d) ''date_field'')]"
    by (simp add: filter_eq_replicate assms)
  finally show ?thesis
    by (simp only: values_tolist_date_field [OF assms])
qed

lemma map_filter_snd_enumerate:
  "map (\<lambda>p. f (snd p)) (filter (\<lambda>p. P (snd p)) (enumerate i xs)) = map f (filter P xs)"
  by (induction xs arbitrary: i) simp_all

lemma date_field_area_series:
  assumes "count_list (columns_tolist d) ''date_field'' = 1"
  shows "map sdata (filter (\<lambda>s. sname s = ''date_field'')
                      (map (\<lambda>p. area_series (prepared d) (color (fst p)) (snd p))
                         (enumerate 0 (columns_tolist d)))) = [self_pairs d]"
proof -
  have "map sdata (filter (\<lambda>s. sname s = ''date_field'')
                     (map (\<lambda>p. area_series (prepared d) (color (fst p)) (snd p))
                        (enumerate 0 (columns_tolist d)))) =
        map (\<lambda>n. values_tolist (selection (prepared d) n))
          (filter (\<lambda>n. n = ''date_field'') (columns_tolist d))"
    by (simp add: filter_map comp_def area_series_def
          map_filter_snd_enumerate [where f = "\<lambda>n. values_tolist (selection (prepared d) n)"
            and P = "\<lambda>n. n = ''date_field''"])
  also have "\<dots> = [values_tolist (selection (prepared d) ''date_field'')]"
    by (simp add: filter_eq_replicate assms)
  finally show ?thesis
    by (simp only: values_tolist_date_field [OF assms])
qed

text \<open>
  C9 as it is written, for every table with a column labelled \<^verbatim>\<open>date_field\<close>: false for a
  table that has as many such columns as it has rows. The table \<open>ex_dup\<close> has two of each;
  the assignment lays the index across the two columns, and both rows of the series that
  line\_chart attaches under the label are the first timestamp, the second, the first and
  the second: the second row does not pair its own timestamp with itself.
\<close>

theorem ex_dup_rows_across:
  "count_list (columns_tolist ex_dup) ''date_field'' = 2 \<and>
   length (index ex_dup) = 2 \<and>
   series_named ''date_field''
     (fst (line_chart 0 ''y'' ''t'' (Enum three_month) 2 True 900 700 (ex_heap ex_dup))) =
     [[[PInt 1500000000000000000, PInt 1500086400000000000,
        PInt 1500000000000000000, PInt 1500086400000000000],
       [PInt 1500000000000000000, PInt 1500086400000000000,
        PInt 1500000000000000000, PInt 1500086400000000000]],
      [[PInt 1500000000000000000, PInt 1500086400000000000,
        PInt 1500000000000000000, PInt 1500086400000000000],
       [PInt 1500000000000000000, PInt 1500086400000000000,
        PInt 1500000000000000000, PInt 1500086400000000000]]] \<and>
   self_pairs ex_dup =
     [[PInt 1500000000000000000, PInt 1500000000000000000],
      [PInt 1500086400000000000, PInt 1500086400000000000]] \<and>
   self_pairs ex_dup \<notin> set (series_named ''date_field''
     (fst (line_chart 0 ''y'' ''t'' (Enum three_month) 2 True 900 700 (ex_heap ex_dup))))"
  by code_simp

text \<open>
  C9, amended. When exactly one column of the table is labelled \<^verbatim>\<open>date_field\<close>, the
  builder's copy has that column overwritten with the index before the loop reads it:
  each of line\_chart, line\_customline and line\_pct\_change attaches exactly one series
  under that label, and its rows pair every index entry with itself, whatever the column
  held; so do area\_stacked and area\_pct\_total when the colormap name is known to
  matplotlib and, without a colormap, the table has at most 100 columns.
\<close>

theorem date_field_column_overwritten:
  assumes "count_list (columns_tolist (objs h tbl)) ''date_field'' = 1"
  shows
    "series_named ''date_field''
       (fst (line_chart tbl y_name title range_sel num_decimals legend figsize_x figsize_y h)) =
       [self_pairs (objs h tbl)] \<and>
     series_named ''date_field''
       (fst (line_customline tbl plotline_date y_name title range_sel num_decimals line_text
               legend figsize_x figsize_y pd_Timestamp h)) = [self_pairs (objs h tbl)] \<and>
     series_named ''date_field''
       (fst (line_pct_change tbl y_name title range_sel num_decimals legend figsize_x
               figsize_y h)) = [self_pairs (objs h tbl)] \<and>
     (\<not> isl (get_cmap plt (cmap_or cmap)) \<and>
      (cmap = None \<longrightarrow> length (columns (objs h tbl)) \<le> 100) \<longrightarrow>
      series_named ''date_field''
        (fst (area_stacked tbl y_name title range_sel num_decimals legend norm_arg cmap
                figsize_x figsize_y plt h)) = [self_pairs (objs h tbl)] \<and>
      series_named ''date_field''
        (fst (area_pct_total tbl y_name title range_sel num_decimals legend norm_arg cmap
                figsize_x figsize_y plt h)) = [self_pairs (objs h tbl)])"
proof -
  note lines = date_field_line_series [OF assms]
  note areas = date_field_area_series [OF assms]
  have a: "series_named ''date_field''
       (fst (line_chart tbl y_name title range_sel num_decimals legend figsize_x figsize_y h)) =
       [self_pairs (objs h tbl)]"
    unfolding series_named_def by (simp only: line_chart_attached lines)
  have b: "series_named ''date_field''
       (fst (line_customline tbl plotline_date y_name title range_sel num_decimals line_text
               legend figsize_x figsize_y pd_Timestamp h)) = [self_pairs (objs h tbl)]"
    unfolding series_named_def by (simp only: line_customline_attached lines)
  have c: "series_named ''date_field''
       (fst (line_pct_change tbl y_name title range_sel num_decimals legend figsize_x
               figsize_y h)) = [self_pairs (objs h tbl)]"
    unfolding series_named_def by (simp only: line_pct_change_attached lines)
  have d: "series_named ''date_field''
        (fst (area_stacked tbl y_name title range_sel num_decimals legend norm_arg cmap
                figsize_x figsize_y plt h)) = [self_pairs (objs h tbl)] \<and>
      series_named ''date_field''
        (fst (area_pct_total tbl y_name title range_sel num_decimals legend norm_arg cmap
                figsize_x figsize_y plt h)) = [self_pairs (objs h tbl)]"
    if "\<not> isl (get_cmap plt (cmap_or cmap))"
      and room: "cmap = None \<longrightarrow> length (columns (objs h tbl)) \<le> 100"
  proof -
    from that(1) obtain colormap where cm: "get_cmap plt (cmap_or cmap) = Inr colormap"
      by (cases "get_cmap plt (cmap_or cmap)") simp_all
    have "attached (fst (area_stacked tbl y_name title range_sel num_decimals legend norm_arg
                           cmap figsize_x figsize_y plt h)) =
          map (\<lambda>p. area_series (prepared (objs h tbl))
                     (color_of plt cmap colormap
                        ((case norm_arg of None \<Rightarrow> Normalize plt | Some n \<Rightarrow> n)
                           (length (columns_tolist (objs h tbl)))) (fst p)) (snd p))
            (enumerate 0 (columns_tolist (objs h tbl)))"
      by (simp add: area_stacked_fst [OF room cm] put_options_def Highstock_def)
    moreover have "attached (fst (area_pct_total tbl y_name title range_sel num_decimals legend
                           norm_arg cmap figsize_x figsize_y plt h)) =
          map (\<lambda>p. area_series (prepared (objs h tbl))
                     (color_of plt cmap colormap
                        ((case norm_arg of None \<Rightarrow> Normalize plt | Some n \<Rightarrow> n)
                           (length (columns_tolist (objs h tbl)))) (fst p)) (snd p))
            (enumerate 0 (columns_tolist (objs h tbl)))"
      by (simp add: area_pct_total_fst [OF room cm] put_options_def Highstock_def)
    ultimately show ?thesis
      unfolding series_named_def by (simp only: areas)
  qed
  from a b c d show ?thesis by blast
qed

theorem date_field_column_overwritten_witness:
  "count_list (columns_tolist (objs (ex_heap ex_date_field) 0)) ''date_field'' = 1 \<and>
   series_named ''date_field''
     (fst (line_chart 0 ''y'' ''t'' (Enum three_month) 2 True 900 700 (ex_heap ex_date_field))) =
     [self_pairs (objs (ex_heap ex_date_field) 0)] \<and>
   series_named ''date_field''
     (fst (area_stacked 0 ''y'' ''t'' (Enum three_month) 2 True None None 900 700 ex_plt
             (ex_heap ex_date_field))) = [self_pairs (objs (ex_heap ex_date_field) 0)] \<and>
   self_pairs (objs (ex_heap ex_date_field) 0) =
     [[PInt 1500000000000000000, PInt 1500000000000000000],
      [PInt 1500086400000000000, PInt 1500086400000000000]]"
proof -
  have label: "count_list (columns_tolist (objs (ex_heap ex_date_field) 0)) ''date_field'' = 1"
    by (simp add: ex_heap_def ex_date_field_def columns_tolist_def)
  have env: "\<not> isl (get_cmap ex_plt (cmap_or None))"
    "length (columns (objs (ex_heap ex_date_field) 0)) \<le> 100"
    by (simp_all add: ex_plt_def ex_heap_def ex_date_field_def)
  have rows: "self_pairs (objs (ex_heap ex_date_field) 0) =
     [[PInt 1500000000000000000, PInt 1500000000000000000],
      [PInt 1500086400000000000, PInt 1500086400000000000]]"
    by (simp add: ex_heap_def ex_date_field_def self_pairs_def)
  from date_field_column_overwritten [OF label, where plt = ex_plt and cmap = None] label env rows
  show ?thesis
    by blast
qed

section \<open>Two tables, two axes\<close>

lemma selection_reset_index:
  assumes "reset_index (setitem d ''date_field'' (index d)) = Inr w"
    and "n \<in> set (columns_tolist d)"
  shows "selection w n = selection (prepared d) n"
proof -
  let ?d = "setitem d ''date_field'' (index d)"
  from assms(1) have fresh: "reset_index_label ?d \<notin> set (columns_tolist ?d)"
    and w: "w = \<lparr>index_name = None, index = RangeIndex (length (index ?d)),
                  columns = (reset_index_label ?d, index ?d) # columns ?d\<rparr>"
    by (auto simp: reset_index_def split: if_splits)
  have labels: "''date_field'' \<in> set (columns_tolist ?d)" "n \<in> set (columns_tolist ?d)"
    using prepared_has_labels [of d] assms(2)
    by (auto simp: prepared_def reset_index_drop_def columns_tolist_def)
  with fresh have "reset_index_label ?d \<noteq> ''date_field''" "reset_index_label ?d \<noteq> n"
    by auto
  then show ?thesis
    by (simp add: selection_def w prepared_def reset_index_drop_def)
qed

lemma labels_reset_index:
  assumes "reset_index (setitem d ''date_field'' (index d)) = Inr w"
  shows "''date_field'' \<in> set (columns_tolist w)" "set (columns_tolist d) \<subseteq> set (columns_tolist w)"
proof -
  let ?d = "setitem d ''date_field'' (index d)"
  from assms have w: "columns_tolist w = reset_index_label ?d # columns_tolist ?d"
    by (auto simp: reset_index_def columns_tolist_def split: if_splits)
  have "columns_tolist ?d = columns_tolist (prepared d)"
    by (simp add: prepared_def reset_index_drop_def columns_tolist_def)
  with w prepared_has_labels [of d]
  show "''date_field'' \<in> set (columns_tolist w)" "set (columns_tolist d) \<subseteq> set (columns_tolist w)"
    by auto
qed

lemma second_loop:
  assumes "reset_index (setitem d ''date_field'' (index d)) = Inr w"
  shows "add_lines w kw (columns_tolist d) H =
           Inr (H\<lparr>data_temp := data_temp H @ map (line_series (prepared d) kw) (columns_tolist d)\<rparr>)"
proof -
  have "map (line_series w kw) (columns_tolist d) = map (line_series (prepared d) kw) (columns_tolist d)"
    using selection_reset_index [OF assms] by (simp add: line_series_def)
  with add_lines_Inr [OF labels_reset_index [OF assms], of kw H] show ?thesis
    by simp
qed

lemma line_secondary_y_fst:
  assumes "tbl' < next_ref h"
  shows "fst (line_secondary_y tbl tbl' secondy_axis_name y_name title range_sel num_decimals
                figsize_x figsize_y h) =
     (case reset_index (setitem (objs h tbl') ''date_field'' (index (objs h tbl'))) of
        Inl e \<Rightarrow> Raised e (Highstock figsize_x figsize_y)
      | Inr w \<Rightarrow>
          Returned (put_options
            (line_secondary_y_options secondy_axis_name y_name title range_sel num_decimals)
            ((Highstock figsize_x figsize_y)
               \<lparr>data_temp :=
                  map (line_series (prepared (objs h tbl)) []) (columns_tolist (objs h tbl)) @
                  map (line_series (prepared (objs h tbl')) [(''yAxis'', PInt 1)])
                    (columns_tolist (objs h tbl'))\<rparr>)))"
proof (cases "reset_index (setitem (objs h tbl') ''date_field'' (index (objs h tbl')))")
  case (Inl e)
  with assms show ?thesis
    by (simp add: line_secondary_y_def df_copy_def df_new_def df_setitem_def Let_def)
next
  case (Inr w)
  from assms have ne: "tbl' \<noteq> next_ref h" by simp
  show ?thesis
    using Inr ne second_loop [OF Inr]
    by (simp add: line_secondary_y_def df_copy_def df_new_def df_setitem_def Let_def
          line_loop_prepared [unfolded prepared_def] prepared_def Highstock_def options_returned)
qed

text \<open>
  line\_secondary\_y, when it returns (it does unless \<^verbatim>\<open>reset_index()\<close> of the second
  table raises), has attached the series of the first table's columns, without a
  \<^verbatim>\<open>yAxis\<close> keyword and so on the first axis, index 0, followed by the series of the
  second table's columns with \<^verbatim>\<open>yAxis=1\<close>; the second entry of the \<^verbatim>\<open>yAxis\<close> option
  has \<^verbatim>\<open>opposite\<close> set to False.
\<close>

lemma secondary_axes_returned:
  assumes "tbl' < next_ref h"
  shows
    "(\<not> isl (reset_index (setitem (objs h tbl') ''date_field'' (index (objs h tbl')))) \<longrightarrow>
      (\<exists>H. fst (line_secondary_y tbl tbl' secondy_axis_name y_name title range_sel num_decimals
                  figsize_x figsize_y h) = Returned H)) \<and>
     (\<forall>H. fst (line_secondary_y tbl tbl' secondy_axis_name y_name title range_sel num_decimals
                 figsize_x figsize_y h) = Returned H \<longrightarrow>
        data_temp H =
          map (line_series (prepared (objs h tbl)) []) (columns_tolist (objs h tbl)) @
          map (line_series (prepared (objs h tbl')) [(''yAxis'', PInt 1)])
            (columns_tolist (objs h tbl')) \<and>
        list_all (\<lambda>s. series_yAxis s = PInt 0) (take (length (columns (objs h tbl))) (data_temp H)) \<and>
        list_all (\<lambda>s. series_yAxis s = PInt 1) (drop (length (columns (objs h tbl))) (data_temp H)) \<and>
        get_path [Key ''yAxis'', Idx 1, Key ''opposite''] (PDict (options H)) = Some (PBool False))"
proof (cases "reset_index (setitem (objs h tbl') ''date_field'' (index (objs h tbl')))")
  case (Inl e)
  then show ?thesis
    by (simp add: line_secondary_y_fst [OF assms])
next
  case (Inr w)
  have first: "list_all (\<lambda>s. series_yAxis s = PInt 0)
                 (map (line_series (prepared (objs h tbl)) []) (columns_tolist (objs h tbl)))"
    by (simp add: list_all_iff line_series_def series_yAxis_def)
  have second: "list_all (\<lambda>s. series_yAxis s = PInt 1)
                 (map (line_series (prepared (objs h tbl')) [(''yAxis'', PInt 1)])
                    (columns_tolist (objs h tbl')))"
    by (simp add: list_all_iff line_series_def series_yAxis_def)
  have opp: "get_path [Key ''yAxis'', Idx 1, Key ''opposite'']
               (PDict (line_secondary_y_options secondy_axis_name y_name title range_sel
                         num_decimals)) = Some (PBool False)"
    by (simp add: line_secondary_y_options_def)
  show ?thesis
    using Inr first second opp
    by (auto simp: line_secondary_y_fst [OF assms] put_options_def Highstock_def
          length_columns_tolist [symmetric])
qed

text \<open>
  C7 fails in the code for a second table on which \<^verbatim>\<open>reset_index()\<close> raises. The first
  table's index is dropped (\<^verbatim>\<open>reset_index(drop=True)\<close>); the second table's is not, and is
  put back as a column under its name. With the index of the second table named
  \<^verbatim>\<open>date_field\<close>, the label of the column just assigned, line\_secondary\_y raises
  ValueError before the first series is attached and before the options are set: no
  series is on axis 1 and no second axis is configured. The same two tables in the other
  order, the named index now being the first table's, give the chart of C7: two series
  on axis 0, two on axis 1, and \<^verbatim>\<open>opposite\<close> False for the second axis.
\<close>

theorem secondary_axes_named_index:
  "fst (line_secondary_y 0 1 ''z'' ''y'' ''t'' (Enum three_month) 2 900 700
          (ex_heap2 ex_table ex_named)) = Raised ValueError (Highstock 900 700) \<and>
   attached (fst (line_secondary_y 0 1 ''z'' ''y'' ''t'' (Enum three_month) 2 900 700
                    (ex_heap2 ex_table ex_named))) = [] \<and>
   option_at [Key ''yAxis'', Idx 1, Key ''opposite'']
     (fst (line_secondary_y 0 1 ''z'' ''y'' ''t'' (Enum three_month) 2 900 700
             (ex_heap2 ex_table ex_named))) = None \<and>
   map series_yAxis
     (attached (fst (line_secondary_y 1 0 ''z'' ''y'' ''t'' (Enum three_month) 2 900 700
                       (ex_heap2 ex_table ex_named)))) = [PInt 0, PInt 0, PInt 1, PInt 1] \<and>
   option_at [Key ''yAxis'', Idx 1, Key ''opposite'']
     (fst (line_secondary_y 1 0 ''z'' ''y'' ''t'' (Enum three_month) 2 900 700
             (ex_heap2 ex_table ex_named))) = Some (PBool False)"
proof -
  let ?h = "ex_heap2 ex_table ex_named"
  have valid: "(1::nat) < next_ref ?h" "(0::nat) < next_ref ?h"
    by (simp_all add: ex_heap2_def)
  have objs: "objs ?h 0 = ex_table" "objs ?h 1 = ex_named"
    by (simp_all add: ex_heap2_def)
  have clash: "reset_index (setitem ex_named ''date_field'' (index ex_named)) = Inl ValueError"
    by (simp add: ex_named_def ex_table_def setitem_def reset_index_def reset_index_label_def
          columns_tolist_def Let_def)
  have fresh: "\<not> isl (reset_index (setitem ex_table ''date_field'' (index ex_table)))"
    by (simp add: ex_table_def setitem_def reset_index_def reset_index_label_def
          columns_tolist_def Let_def)
  then obtain w where w: "reset_index (setitem ex_table ''date_field'' (index ex_table)) = Inr w"
    by (cases "reset_index (setitem ex_table ''date_field'' (index ex_table))") simp_all
  have raised: "fst (line_secondary_y 0 1 ''z'' ''y'' ''t'' (Enum three_month) 2 900 700 ?h) =
                  Raised ValueError (Highstock 900 700)"
    unfolding line_secondary_y_fst [OF valid(1)] objs clash by simp
  have labels: "columns_tolist ex_table = [''A'', ''B'']" "columns_tolist ex_named = [''A'', ''B'']"
    by (simp_all add: columns_tolist_def ex_named_def ex_table_def)
  have returned: "fst (line_secondary_y 1 0 ''z'' ''y'' ''t'' (Enum three_month) 2 900 700 ?h) =
     Returned (put_options (line_secondary_y_options ''z'' ''y'' ''t'' (Enum three_month) 2)
       ((Highstock 900 700)
          \<lparr>data_temp :=
             map (line_series (prepared ex_named) []) [''A'', ''B''] @
             map (line_series (prepared ex_table) [(''yAxis'', PInt 1)]) [''A'', ''B'']\<rparr>))"
    unfolding line_secondary_y_fst [OF valid(2)] objs w labels by simp
  show ?thesis
    unfolding raised returned
    by (simp add: option_at_def put_options_def Highstock_def line_series_def series_yAxis_def
          line_secondary_y_options_def)
qed

section \<open>The x-components\<close>

lemma selection_numeric:
  assumes "''date_field'' \<notin> set (columns_tolist d)" and "n \<in> set (columns_tolist d)"
  shows "columns (selection (prepared d) n) =
           (''date_field'', index d) # filter (\<lambda>c. fst c = n) (columns d)"
proof -
  have cols: "columns (prepared d) = columns d @ [(''date_field'', index d)]"
    using assms(1) by (simp add: prepared_def reset_index_drop_def setitem_absent)
  have no: "filter (\<lambda>c. fst c = ''date_field'') (columns d) = []"
    using assms(1) by (simp add: columns_tolist_def filter_fst_absent)
  from assms have "n \<noteq> ''date_field''" by blast
  then show ?thesis
    by (simp add: selection_def cols no)
qed

lemma x_components_numeric:
  assumes "''date_field'' \<notin> set (columns_tolist d)" and "n \<in> set (columns_tolist d)"
    and "wf_frame d" and "numeric_columns d"
  shows "map x_of (values_tolist (selection (prepared d) n)) = map (\<lambda>c. Some (box c)) (index d)"
proof -
  let ?s = "selection (prepared d) n"
  note cols = selection_numeric [OF assms(1,2)]
  from assms(2) obtain c where c: "c \<in> set (columns d)" "fst c = n"
    by (auto simp: columns_tolist_def)
  have plain: "\<not> all_datetime ?s" if "r < length (index d)" for r
  proof -
    from c(1) assms(3) have "length (snd c) = length (index d)"
      by (simp add: wf_frame_def list_all_iff)
    with that have mem: "snd c ! r \<in> set (snd c)" by simp
    from c(1) assms(4) have "list_all is_Num (snd c)"
      by (simp add: numeric_columns_def list_all_iff)
    with mem have "is_Num (snd c ! r)" by (simp add: list_all_iff)
    then have "\<not> is_Stamp (snd c ! r)" by (cases "snd c ! r") simp_all
    with mem have bad: "\<not> list_all is_Stamp (snd c)" by (auto simp: list_all_iff)
    from c have "c \<in> set (filter (\<lambda>c. fst c = n) (columns d))" by simp
    with bad have "\<not> list_all (\<lambda>c. list_all is_Stamp (snd c)) (filter (\<lambda>c. fst c = n) (columns d))"
      unfolding list_all_iff by blast
    then show ?thesis
      by (simp add: all_datetime_def cols)
  qed
  show ?thesis
    unfolding values_tolist_def
    by (rule nth_equalityI) (simp_all add: cols index_selection_prepared plain)
qed

lemma x_are_reshaped:
  assumes "''date_field'' \<notin> set (columns_tolist d)" and "wf_frame d" and "numeric_columns d"
    and "list_all (reshaped_from d) ss"
  shows "x_are box d ss"
  using assms(4) x_components_numeric [OF assms(1) _ assms(2,3)]
  by (simp add: x_are_def x_components_def list_all_iff reshaped_from_def)

text \<open>
  C2 as it is written: false. For the table \<open>ex_table\<close>, whose index holds timestamps,
  the x-components of the series that line\_chart attaches are not the integer counts of
  epoch milliseconds of the index.
\<close>
theorem ex_table_x_not_epoch_ms:
  "list_all is_Stamp (index ex_table) \<and>
   \<not> x_are ms_value ex_table
       (attached (fst (line_chart 0 ''y'' ''t'' (Enum three_month) 2 True 900 700
                         (ex_heap ex_table))))"
  by code_simp

text \<open>
  C2, amended. For a table of numeric columns, none labelled \<^verbatim>\<open>date_field\<close>, the
  x-component of every pair of every series that line\_chart, line\_customline,
  area\_stacked, area\_pct\_total, line\_pct\_change and line\_secondary\_y (for each of its
  two tables) attach is the row's index entry as it is: for a timestamp the Timestamp
  object, not a count of milliseconds. The three line builders attach one such series for
  every column of the table, under the column's label.
\<close>
theorem timestamps_not_converted:
  assumes "wf_frame (objs h tbl)" and "numeric_columns (objs h tbl)"
    and "''date_field'' \<notin> set (columns_tolist (objs h tbl))"
  shows
    "x_are box (objs h tbl)
       (attached (fst (line_chart tbl y_name title range_sel num_decimals legend figsize_x
                         figsize_y h))) \<and>
     map sname
       (attached (fst (line_chart tbl y_name title range_sel num_decimals legend figsize_x
                         figsize_y h))) = columns_tolist (objs h tbl) \<and>
     x_are box (objs h tbl)
       (attached (fst (line_customline tbl plotline_date y_name title range_sel num_decimals
                         line_text legend figsize_x figsize_y pd_Timestamp h))) \<and>
     map sname
       (attached (fst (line_customline tbl plotline_date y_name title range_sel num_decimals
                         line_text legend figsize_x figsize_y pd_Timestamp h))) =
       columns_tolist (objs h tbl) \<and>
     x_are box (objs h tbl)
       (attached (fst (area_stacked tbl y_name title range_sel num_decimals legend norm_arg cmap
                         figsize_x figsize_y plt h))) \<and>
     x_are box (objs h tbl)
       (attached (fst (area_pct_total tbl y_name title range_sel num_decimals legend norm_arg
                         cmap figsize_x figsize_y plt h))) \<and>
     x_are box (objs h tbl)
       (attached (fst (line_pct_change tbl y_name title range_sel num_decimals legend figsize_x
                         figsize_y h))) \<and>
     map sname
       (attached (fst (line_pct_change tbl y_name title range_sel num_decimals legend figsize_x
                         figsize_y h))) = columns_tolist (objs h tbl) \<and>
     (tbl' < next_ref h \<and> wf_frame (objs h tbl') \<and> numeric_columns (objs h tbl') \<and>
      ''date_field'' \<notin> set (columns_tolist (objs h tbl')) \<longrightarrow>
      x_are box (objs h tbl)
        (take (length (columns (objs h tbl)))
           (attached (fst (line_secondary_y tbl tbl' secondy_axis_name y_name title range_sel
                             num_decimals figsize_x figsize_y h)))) \<and>
      x_are box (objs h tbl')
        (drop (length (columns (objs h tbl)))
           (attached (fst (line_secondary_y tbl tbl' secondy_axis_name y_name title range_sel
                             num_decimals figsize_x figsize_y h)))))"
proof -
  note x = x_are_reshaped [OF assms(3,1,2)]
  have sec: "x_are box (objs h tbl)
        (take (length (columns (objs h tbl)))
           (attached (fst (line_secondary_y tbl tbl' secondy_axis_name y_name title range_sel
                             num_decimals figsize_x figsize_y h)))) \<and>
      x_are box (objs h tbl')
        (drop (length (columns (objs h tbl)))
           (attached (fst (line_secondary_y tbl tbl' secondy_axis_name y_name title range_sel
                             num_decimals figsize_x figsize_y h))))"
    if valid: "tbl' < next_ref h" and wf: "wf_frame (objs h tbl')"
      and num: "numeric_columns (objs h tbl')"
      and lab: "''date_field'' \<notin> set (columns_tolist (objs h tbl'))"
  proof (cases "reset_index (setitem (objs h tbl') ''date_field'' (index (objs h tbl')))")
    case (Inl e)
    then show ?thesis
      by (simp add: line_secondary_y_fst [OF valid] data_temp_Highstock x_are_def)
  next
    case (Inr w)
    then show ?thesis
      using x [OF line_series_all_reshaped] x_are_reshaped [OF lab wf num line_series_all_reshaped]
      by (simp add: line_secondary_y_fst [OF valid] put_options_def Highstock_def
            length_columns_tolist [symmetric])
  qed
  have names: "map sname (map (line_series (prepared (objs h tbl)) []) (columns_tolist (objs h tbl)))
                 = columns_tolist (objs h tbl)"
    by (simp add: line_series_def comp_def)
  show ?thesis
    using x [OF line_series_all_reshaped] x [OF area_stacked_attached]
      x [OF area_pct_total_attached] sec names
    by (simp add: line_chart_attached line_customline_attached line_pct_change_attached)
qed

theorem timestamps_not_converted_witness:
  "wf_frame (objs (ex_heap2 ex_table ex_table) 0) \<and>
   numeric_columns (objs (ex_heap2 ex_table ex_table) 0) \<and>
   ''date_field'' \<notin> set (columns_tolist (objs (ex_heap2 ex_table ex_table) 0)) \<and>
   x_are box (objs (ex_heap2 ex_table ex_table) 0)
     (attached (fst (line_chart 0 ''y'' ''t'' (Enum three_month) 2 True 900 700
                       (ex_heap2 ex_table ex_table)))) \<and>
   map sname
     (attached (fst (line_chart 0 ''y'' ''t'' (Enum three_month) 2 True 900 700
                       (ex_heap2 ex_table ex_table)))) =
     columns_tolist (objs (ex_heap2 ex_table ex_table) 0) \<and>
   x_are box (objs (ex_heap2 ex_table ex_table) 1)
     (drop (length (columns (objs (ex_heap2 ex_table ex_table) 0)))
        (attached (fst (line_secondary_y 0 1 ''z'' ''y'' ''t'' (Enum three_month) 2 900 700
                          (ex_heap2 ex_table ex_table))))) \<and>
   map box (index (objs (ex_heap2 ex_table ex_table) 0)) =
     [PTimestamp 1500000000000000000, PTimestamp 1500086400000000000,
      PTimestamp 1500172800000000000]"
proof -
  have hyps: "wf_frame (objs (ex_heap2 ex_table ex_table) 0)"
    "numeric_columns (objs (ex_heap2 ex_table ex_table) 0)"
    "''date_field'' \<notin> set (columns_tolist (objs (ex_heap2 ex_table ex_table) 0))"
    by (simp_all add: ex_heap2_def wf_frame_def numeric_columns_def columns_tolist_def ex_table_def)
  have hyps': "(1::nat) < next_ref (ex_heap2 ex_table ex_table)"
    "wf_frame (objs (ex_heap2 ex_table ex_table) 1)"
    "numeric_columns (objs (ex_heap2 ex_table ex_table) 1)"
    "''date_field'' \<notin> set (columns_tolist (objs (ex_heap2 ex_table ex_table) 1))"
    by (simp_all add: ex_heap2_def wf_frame_def numeric_columns_def columns_tolist_def ex_table_def)
  have stamps: "map box (index (objs (ex_heap2 ex_table ex_table) 0)) =
     [PTimestamp 1500000000000000000, PTimestamp 1500086400000000000,
      PTimestamp 1500172800000000000]"
    by (simp add: ex_heap2_def ex_table_def)
  from timestamps_not_converted [OF hyps, where tbl' = 1] hyps hyps' stamps
  show ?thesis by blast
qed

section \<open>Stacked and percent-of-total\<close>

lemma area_pct_total_options_variant:
  "area_pct_total_options y_name title range_sel num_decimals legend =
     dict_items (percent_variant y_name num_decimals
       (PDict (area_stacked_options y_name title range_sel num_decimals legend)))"
  by (simp add: area_pct_total_options_def area_stacked_options_def percent_variant_def)

lemma area_heaps_equal:
  "snd (area_pct_total tbl y_name title range_sel num_decimals legend norm_arg cmap
          figsize_x figsize_y plt h) =
   snd (area_stacked tbl y_name title range_sel num_decimals legend norm_arg cmap
          figsize_x figsize_y plt h)"
  by (simp add: area_pct_total_def area_stacked_def df_copy_def df_new_def df_setitem_def Let_def
        split: sum.split prod.split)

text \<open>
  C5 as it is written: false. For the same arguments the two builders' options differ in
  the tooltip as well: area\_stacked has an \<^verbatim>\<open>xDateFormat\<close> there and no
  \<^verbatim>\<open>pointFormat\<close>, area\_pct\_total a \<^verbatim>\<open>pointFormat\<close> and no \<^verbatim>\<open>xDateFormat\<close>.
\<close>

theorem ex_table_tooltips_differ:
  "option_at [Key ''tooltip'', Key ''xDateFormat'']
     (fst (area_stacked 0 ''y'' ''t'' (Enum three_month) 2 True None None 900 700 ex_plt
             (ex_heap ex_table))) = Some (PStr ''%A, %b %d, %Y'') \<and>
   option_at [Key ''tooltip'', Key ''xDateFormat'']
     (fst (area_pct_total 0 ''y'' ''t'' (Enum three_month) 2 True None None 900 700 ex_plt
             (ex_heap ex_table))) = None \<and>
   option_at [Key ''tooltip'', Key ''pointFormat'']
     (fst (area_stacked 0 ''y'' ''t'' (Enum three_month) 2 True None None 900 700 ex_plt
             (ex_heap ex_table))) = None \<and>
   option_at [Key ''tooltip'', Key ''pointFormat'']
     (fst (area_pct_total 0 ''y'' ''t'' (Enum three_month) 2 True None None 900 700 ex_plt
             (ex_heap ex_table))) = Some (PStr pointFormat_percentage)"
  by code_simp

text \<open>
  C5, amended. For the same arguments, what area\_pct\_total comes to is what area\_stacked
  comes to with the options changed in three places and nowhere else: the text of the
  y-axis title, the stacking mode of the area plot options, and the tooltip (a
  \<^verbatim>\<open>pointFormat\<close> in place of the \<^verbatim>\<open>xDateFormat\<close>). The series attached, their data
  and their colours, are the same, and so is the store.
\<close>

theorem percent_of_total_variant:
  "fst (area_pct_total tbl y_name title range_sel num_decimals legend norm_arg cmap
          figsize_x figsize_y plt h) =
     with_options (percent_variant y_name num_decimals)
       (fst (area_stacked tbl y_name title range_sel num_decimals legend norm_arg cmap
               figsize_x figsize_y plt h)) \<and>
   attached (fst (area_pct_total tbl y_name title range_sel num_decimals legend norm_arg cmap
                    figsize_x figsize_y plt h)) =
     attached (fst (area_stacked tbl y_name title range_sel num_decimals legend norm_arg cmap
                      figsize_x figsize_y plt h)) \<and>
   snd (area_pct_total tbl y_name title range_sel num_decimals legend norm_arg cmap
          figsize_x figsize_y plt h) =
     snd (area_stacked tbl y_name title range_sel num_decimals legend norm_arg cmap
            figsize_x figsize_y plt h)"
  by (simp add: area_pct_total_unfold area_stacked_unfold area_heaps_equal put_options_def
        area_pct_total_options_variant split: sum.split prod.split)

section \<open>boxplot on a table of two columns\<close>

lemma str_nat_levels:
  "str_nat 0 = ''0''" "str_nat 25 = ''25''" "str_nat 50 = ''50''" "str_nat 75 = ''75''"
  "str_nat 100 = ''100''"
  by code_simp+

lemma set_columns_two:
  assumes "columns d = [(n1, ks), (n2, vs)]"
  shows "set_columns d [''date_field'', ''column_1''] =
           Inr (d\<lparr>columns := [(''date_field'', ks), (''column_1'', vs)]\<rparr>)"
  using assms by (simp add: set_columns_def)

lemma column_two:
  assumes "columns d = [(''date_field'', ks), (''column_1'', vs)]"
  shows "column d ''column_1'' = Inr vs" and "column d ''date_field'' = Inr ks"
  using assms by (simp_all add: column_def)

lemma sort_values_two:
  assumes "columns d = [(''date_field'', ks), (''column_1'', vs)]" and "list_all is_Num vs"
    and "index_name d \<noteq> Some ''column_1''"
  shows "sort_values d ''column_1'' =
           Inr (d\<lparr>index := map ((!) (index d)) (row_order (length (index d)) vs),
                   columns := [(''date_field'', map ((!) ks) (row_order (length (index d)) vs)),
                               (''column_1'', map ((!) vs) (row_order (length (index d)) vs))]\<rparr>)"
  using assms by (simp add: sort_values_def label_values_def column_two row_order_def Let_def)

lemma quantile_columns:
  "fold (set_quantile ks vs) [0, 25, 50, 75, 100] (groupby_count ks vs) =
     \<lparr>gkeys = group_keys ks,
      gcols = [(''column_1'', map (\<lambda>k. Some (of_nat (length (group_values ks vs k)))) (group_keys ks)),
               (''quantile_0'', map (\<lambda>k. quantile (group_values ks vs k) 0) (group_keys ks)),
               (''quantile_25'', map (\<lambda>k. quantile (group_values ks vs k) (1 / 4)) (group_keys ks)),
               (''quantile_50'', map (\<lambda>k. quantile (group_values ks vs k) (1 / 2)) (group_keys ks)),
               (''quantile_75'', map (\<lambda>k. quantile (group_values ks vs k) (3 / 4)) (group_keys ks)),
               (''quantile_100'', map (\<lambda>k. quantile (group_values ks vs k) 1) (group_keys ks))]\<rparr>"
  by (simp add: set_quantile_def groupby_count_def str_nat_levels Let_def)

lemma box_list_rows:
  "box_list (fold (set_quantile ks vs) [0, 25, 50, 75, 100] (groupby_count ks vs))
     [''quantile_0'', ''quantile_25'', ''quantile_50'', ''quantile_75'', ''quantile_100''] =
   Inr (map (box_row ks vs) (group_keys ks))"
proof -
  have "map (\<lambda>j. box_row ks vs (group_keys ks ! j)) [0..<length (group_keys ks)] =
          map (box_row ks vs) (group_keys ks)"
    by (rule nth_equalityI) simp_all
  moreover have "map (\<lambda>j. box (group_keys ks ! j) #
         map (\<lambda>col. float_val (col ! j))
           [map (\<lambda>k. quantile (group_values ks vs k) 0) (group_keys ks),
            map (\<lambda>k. quantile (group_values ks vs k) (1 / 4)) (group_keys ks),
            map (\<lambda>k. quantile (group_values ks vs k) (1 / 2)) (group_keys ks),
            map (\<lambda>k. quantile (group_values ks vs k) (3 / 4)) (group_keys ks),
            map (\<lambda>k. quantile (group_values ks vs k) 1) (group_keys ks)])
        [0..<length (group_keys ks)] =
      map (\<lambda>j. box_row ks vs (group_keys ks ! j)) [0..<length (group_keys ks)]"
    by (rule map_cong) (simp_all add: box_row_def levels_def)
  ultimately show ?thesis
    unfolding quantile_columns box_list_def by simp
qed

lemma mset_row_order: "mset (row_order n vs) = mset [0..<n]"
  by (simp add: row_order_def)

lemma mset_reordered:
  assumes "mset perm = mset [0..<length xs]"
  shows "mset (map ((!) xs) perm) = mset xs"
proof -
  have "mset (map ((!) xs) perm) = image_mset ((!) xs) (mset perm)"
    by simp
  also have "\<dots> = mset (map ((!) xs) [0..<length xs])"
    by (simp only: assms mset_map)
  also have "\<dots> = mset xs"
    by (simp only: map_nth)
  finally show ?thesis .
qed

lemma zip_reordered:
  assumes "set perm \<subseteq> {0..<n}" and "length ks = n" and "length vs = n"
  shows "zip (map ((!) ks) perm) (map ((!) vs) perm) = map ((!) (zip ks vs)) perm"
proof -
  have "zip (map ((!) ks) perm) (map ((!) vs) perm) = map (\<lambda>r. (ks ! r, vs ! r)) perm"
    by (simp add: zip_map_map zip_same_conv_map)
  also have "\<dots> = map ((!) (zip ks vs)) perm"
    using assms by (intro map_cong) auto
  finally show ?thesis .
qed

lemma mset_group_values_reordered:
  assumes "mset perm = mset [0..<n]" and "length ks = n" and "length vs = n"
  shows "mset (group_values (map ((!) ks) perm) (map ((!) vs) perm) k) =
         mset (group_values ks vs k)"
proof -
  from assms(1) have "set perm = {0..<n}"
    by (metis atLeastLessThan_upt mset_eq_setD)
  then have "zip (map ((!) ks) perm) (map ((!) vs) perm) = map ((!) (zip ks vs)) perm"
    using assms(2,3) by (intro zip_reordered) simp_all
  moreover have "mset (map ((!) (zip ks vs)) perm) = mset (zip ks vs)"
    using assms by (intro mset_reordered) simp
  ultimately have "mset (zip (map ((!) ks) perm) (map ((!) vs) perm)) = mset (zip ks vs)"
    by simp
  then have "mset (filter (\<lambda>p. fst p = k) (zip (map ((!) ks) perm) (map ((!) vs) perm))) =
             mset (filter (\<lambda>p. fst p = k) (zip ks vs))"
    by (simp only: mset_filter)
  then show ?thesis
    unfolding group_values_def by (simp only: mset_map)
qed

lemma quantile_mset:
  assumes "mset xs = mset ys"
  shows "quantile xs q = quantile ys q"
proof -
  from assms have "sort xs = sort ys"
    by (metis mset_sort properties_for_sort sorted_sort)
  moreover from assms have "xs = [] \<longleftrightarrow> ys = []"
    by (metis mset_zero_iff)
  ultimately show ?thesis
    by (simp add: quantile_def)
qed

lemma box_row_reordered:
  assumes "mset perm = mset [0..<n]" and "length ks = n" and "length vs = n"
  shows "box_row (map ((!) ks) perm) (map ((!) vs) perm) k = box_row ks vs k"
  unfolding box_row_def
  by (simp add: quantile_mset [OF mset_group_values_reordered [OF assms]])

lemma column_mean_mset:
  assumes "mset xs = mset ys"
  shows "column_mean xs = column_mean ys"
proof -
  from assms have "mset (map cell_key xs) = mset (map cell_key ys)"
    by simp
  then have "sum_list (map cell_key xs) = sum_list (map cell_key ys)"
    by (metis sum_mset_sum_list)
  moreover from assms have "length xs = length ys"
    by (metis size_mset)
  ultimately show ?thesis
    by (auto simp: column_mean_def)
qed

lemma series_mean_numbers:
  "list_all is_Num vs \<Longrightarrow> series_mean vs = Inr (column_mean vs)"
  by (simp add: series_mean_def column_mean_def)

lemma boxplot_fst:
  assumes cols: "columns (objs h tbl) = [(n1, ks), (n2, vs)]"
    and num: "list_all is_Num vs"
    and len: "length ks = length (index (objs h tbl))" "length vs = length (index (objs h tbl))"
    and name: "index_name (objs h tbl) \<noteq> Some ''date_field''"
      "index_name (objs h tbl) \<noteq> Some ''column_1''"
  shows "fst (boxplot tbl y_name title num_decimals x_name figsize_x figsize_y py_str h) =
     Returned (put_options
       (boxplot_options py_str (float_val (py_round (column_mean vs) num_decimals)) y_name title
          num_decimals x_name)
       (add_data_set
          (map (box_row ks vs)
             (group_keys (map ((!) ks) (row_order (length (index (objs h tbl))) vs))))
          ''boxplot'' y_name
          [(''tooltip'', PDict [(''headerFormat'', PStr ''<em>Date {point.key}</em><br/>'')])]
          (Highchart figsize_x figsize_y)))"
proof -
  let ?d = "objs h tbl"
  let ?perm = "row_order (length (index ?d)) vs"
  let ?ks = "map ((!) ks) ?perm" and ?vs = "map ((!) vs) ?perm"
  have perm: "mset ?perm = mset [0..<length (index ?d)]"
    by (rule mset_row_order)
  have s1: "set_columns ?d [''date_field'', ''column_1''] =
              Inr (?d\<lparr>columns := [(''date_field'', ks), (''column_1'', vs)]\<rparr>)"
    by (rule set_columns_two [OF cols])
  have s2: "sort_values (?d\<lparr>columns := [(''date_field'', ks), (''column_1'', vs)]\<rparr>) ''column_1'' =
              Inr (?d\<lparr>index := map ((!) (index ?d)) ?perm,
                      columns := [(''date_field'', ?ks), (''column_1'', ?vs)]\<rparr>)"
    using sort_values_two [of "?d\<lparr>columns := [(''date_field'', ks), (''column_1'', vs)]\<rparr>" ks vs]
      num name(2)
    by simp
  have c2: "column (?d\<lparr>index := map ((!) (index ?d)) ?perm,
                      columns := [(''date_field'', ?ks), (''column_1'', ?vs)]\<rparr>) ''column_1'' = Inr ?vs"
    "label_values (?d\<lparr>index := map ((!) (index ?d)) ?perm,
                      columns := [(''date_field'', ?ks), (''column_1'', ?vs)]\<rparr>) ''date_field'' = Inr ?ks"
    using name(1) by (simp_all add: label_values_def column_def)
  have mvs: "mset ?vs = mset vs"
    using perm len(2) by (intro mset_reordered) simp
  then have "set ?vs = set vs"
    by (rule mset_eq_setD)
  with num have num': "list_all is_Num ?vs"
    by (simp add: list_all_iff)
  have mean: "series_mean ?vs = Inr (column_mean vs)"
    by (simp only: series_mean_numbers [OF num'] column_mean_mset [OF mvs])
  have rows: "box_list (fold (set_quantile ?ks ?vs) [0, 25, 50, 75, 100] (groupby_count ?ks ?vs))
     [''quantile_0'', ''quantile_25'', ''quantile_50'', ''quantile_75'', ''quantile_100''] =
     Inr (map (box_row ks vs) (group_keys ?ks))"
    using box_row_reordered [OF perm len] by (simp only: box_list_rows) simp
  have rows': "box_list
       (set_quantile ?ks ?vs 100 (set_quantile ?ks ?vs 75 (set_quantile ?ks ?vs 50
          (set_quantile ?ks ?vs 25 (set_quantile ?ks ?vs 0 (groupby_count ?ks ?vs))))))
       [''quantile_0'', ''quantile_25'', ''quantile_50'', ''quantile_75'', ''quantile_100''] =
     Inr (map (box_row ks vs) (group_keys ?ks))"
    using rows by simp
  show ?thesis
    unfolding boxplot_def df_copy_def df_new_def
    by (simp add: Let_def s1 s2 c2 mean rows' options_returned)
qed

section \<open>Quantiles in order\<close>

lemma quantile_Some: "vs \<noteq> [] \<Longrightarrow> \<exists>a. quantile vs q = Some a"
  by (simp add: quantile_def Let_def)

lemma interpolation_bounds:
  fixes s :: "rat list" and pos :: rat
  assumes srt: "sorted s" and pos: "0 \<le> pos" "pos \<le> of_nat (length s - 1)" and ne: "s \<noteq> []"
  defines "lo \<equiv> nat \<lfloor>pos\<rfloor>"
  defines "v \<equiv> (if lo + 1 < length s then s ! lo + (s ! (lo + 1) - s ! lo) * (pos - of_nat lo)
                  else s ! (length s - 1))"
  shows "lo \<le> length s - 1" and "s ! lo \<le> v" and "v \<le> s ! min (lo + 1) (length s - 1)"
proof -
  from pos(1) have lo_int: "(of_nat lo :: rat) = of_int \<lfloor>pos\<rfloor>"
    by (simp add: lo_def)
  have "\<lfloor>pos\<rfloor> \<le> \<lfloor>of_nat (length s - 1) :: rat\<rfloor>"
    using pos(2) by (rule floor_mono)
  then show lo_le: "lo \<le> length s - 1"
    by (simp add: lo_def)
  have frac: "0 \<le> pos - of_nat lo" "pos - of_nat lo \<le> 1"
    unfolding lo_int by linarith+
  show "s ! lo \<le> v" and "v \<le> s ! min (lo + 1) (length s - 1)"
  proof -
    show "s ! lo \<le> v"
    proof (cases "lo + 1 < length s")
      case True
      with srt have "s ! lo \<le> s ! (lo + 1)"
        by (intro sorted_nth_mono) simp_all
      then have "0 \<le> (s ! (lo + 1) - s ! lo) * (pos - of_nat lo)"
        using frac(1) by simp
      with True show ?thesis by (simp add: v_def)
    next
      case False
      with lo_le ne have "lo = length s - 1"
        by (cases s) simp_all
      with False show ?thesis by (simp add: v_def)
    qed
    show "v \<le> s ! min (lo + 1) (length s - 1)"
    proof (cases "lo + 1 < length s")
      case True
      with srt have d: "0 \<le> s ! (lo + 1) - s ! lo"
        using sorted_nth_mono [of s lo "lo + 1"] by simp
      have "(s ! (lo + 1) - s ! lo) * (pos - of_nat lo) \<le> (s ! (lo + 1) - s ! lo) * 1"
        using d frac(2) by (rule mult_left_mono [rotated])
      moreover from True have "min (lo + 1) (length s - 1) = lo + 1"
        by simp
      ultimately show ?thesis
        using True by (simp add: v_def)
    next
      case False
      then have "min (lo + 1) (length s - 1) = length s - 1"
        by simp
      with False show ?thesis by (simp only: v_def if_False order_refl)
    qed
  qed
qed

lemma interpolation_mono:
  fixes s :: "rat list" and p p' :: rat
  assumes srt: "sorted s" and ne: "s \<noteq> []"
    and p: "0 \<le> p" "p \<le> p'" "p' \<le> of_nat (length s - 1)"
  shows "(if nat \<lfloor>p\<rfloor> + 1 < length s
          then s ! nat \<lfloor>p\<rfloor> + (s ! (nat \<lfloor>p\<rfloor> + 1) - s ! nat \<lfloor>p\<rfloor>) * (p - of_nat (nat \<lfloor>p\<rfloor>))
          else s ! (length s - 1))
       \<le> (if nat \<lfloor>p'\<rfloor> + 1 < length s
          then s ! nat \<lfloor>p'\<rfloor> + (s ! (nat \<lfloor>p'\<rfloor> + 1) - s ! nat \<lfloor>p'\<rfloor>) * (p' - of_nat (nat \<lfloor>p'\<rfloor>))
          else s ! (length s - 1))"
    (is "?v \<le> ?v'")
proof -
  let ?lo = "nat \<lfloor>p\<rfloor>" and ?lo' = "nat \<lfloor>p'\<rfloor>"
  from p have p': "0 \<le> p'" "p \<le> of_nat (length s - 1)" by simp_all
  note b = interpolation_bounds [OF srt p(1) p'(2) ne]
  note b' = interpolation_bounds [OF srt p'(1) p(3) ne]
  have "\<lfloor>p\<rfloor> \<le> \<lfloor>p'\<rfloor>" using p(2) by (rule floor_mono)
  then have le: "?lo \<le> ?lo'" by simp
  show ?thesis
  proof (cases "?lo = ?lo'")
    case True
    show ?thesis
    proof (cases "?lo + 1 < length s")
      case lt: True
      with srt have "0 \<le> s ! (?lo + 1) - s ! ?lo"
        using sorted_nth_mono [of s ?lo "?lo + 1"] by simp
      moreover have "p - of_nat ?lo \<le> p' - of_nat ?lo"
        using p(2) by simp
      ultimately have "(s ! (?lo + 1) - s ! ?lo) * (p - of_nat ?lo)
                     \<le> (s ! (?lo + 1) - s ! ?lo) * (p' - of_nat ?lo)"
        by (rule mult_left_mono [rotated])
      with lt True show ?thesis by simp
    next
      case False
      with True show ?thesis by simp
    qed
  next
    case False
    with le have step: "?lo + 1 \<le> ?lo'" by simp
    with b'(1) have inside: "min (?lo + 1) (length s - 1) = ?lo + 1"
      by simp
    from ne b'(1) have "?lo' < length s"
      by (cases s) simp_all
    with srt step have "s ! (?lo + 1) \<le> s ! ?lo'"
      by (intro sorted_nth_mono)
    with b(3) b'(2) inside show ?thesis
      by simp
  qed
qed

lemma quantile_nonempty:
  assumes "vs \<noteq> []"
  shows "quantile vs q =
     Some (if nat \<lfloor>q * of_nat (length (sort vs) - 1)\<rfloor> + 1 < length (sort vs)
           then sort vs ! nat \<lfloor>q * of_nat (length (sort vs) - 1)\<rfloor> +
                (sort vs ! (nat \<lfloor>q * of_nat (length (sort vs) - 1)\<rfloor> + 1) -
                 sort vs ! nat \<lfloor>q * of_nat (length (sort vs) - 1)\<rfloor>) *
                (q * of_nat (length (sort vs) - 1) -
                 of_nat (nat \<lfloor>q * of_nat (length (sort vs) - 1)\<rfloor>))
           else sort vs ! (length (sort vs) - 1))"
proof (cases "nat \<lfloor>q * of_nat (length (sort vs) - 1)\<rfloor> + 1 < length (sort vs)")
  case True
  with assms show ?thesis
    by (simp only: quantile_def Let_def if_False if_True)
next
  case False
  with assms show ?thesis
    by (simp only: quantile_def Let_def if_False)
qed

lemma quantile_mono:
  assumes "vs \<noteq> []" and "0 \<le> q" and "q \<le> q'" and "q' \<le> 1"
    and "quantile vs q = Some a" and "quantile vs q' = Some b"
  shows "a \<le> b"
proof -
  let ?s = "sort vs"
  let ?m = "of_nat (length ?s - 1) :: rat"
  have srt: "sorted ?s"
    by simp
  have ne: "?s \<noteq> []"
    using assms(1) by (metis length_0_conv length_sort)
  have m: "0 \<le> ?m" by simp
  have p1: "0 \<le> q * ?m"
    using assms(2) m by (rule mult_nonneg_nonneg)
  have p2: "q * ?m \<le> q' * ?m"
    using assms(3) m by (rule mult_right_mono)
  have "q' * ?m \<le> 1 * ?m"
    using assms(4) m by (rule mult_right_mono)
  then have p3: "q' * ?m \<le> of_nat (length ?s - 1)"
    by (simp only: mult_1)
  from assms(5,6) show ?thesis
    unfolding quantile_nonempty [OF assms(1)] option.inject
    using interpolation_mono [OF srt ne p1 p2 p3] by (simp only:)
qed

lemma sorted_wrt_remdups: "sorted_wrt P xs \<Longrightarrow> sorted_wrt P (remdups xs)"
  by (induction xs) auto

lemma group_keys_props:
  "distinct (group_keys ks)" "set (group_keys ks) = set ks" "sorted (map cell_key (group_keys ks))"
proof -
  show "distinct (group_keys ks)" and "set (group_keys ks) = set ks"
    by (simp_all add: group_keys_def)
  have "sorted (map cell_key (sort_key cell_key ks))"
    by (rule sorted_sort_key)
  then have "sorted_wrt (\<lambda>a b. cell_key a \<le> cell_key b) (remdups (sort_key cell_key ks))"
    unfolding sorted_map by (rule sorted_wrt_remdups)
  then show "sorted (map cell_key (group_keys ks))"
    by (simp add: group_keys_def sorted_map)
qed

lemma group_values_nonempty:
  assumes "k \<in> set ks" and "length ks = length vs"
  shows "group_values ks vs k \<noteq> []"
proof -
  from assms obtain v where "(k, v) \<in> set (zip ks vs)"
    by (meson in_set_impl_in_set_zip1)
  then have "(k, v) \<in> set (filter (\<lambda>p. fst p = k) (zip ks vs))"
    by simp
  then show ?thesis
    unfolding group_values_def by (metis empty_iff list.map_disc_iff list.set(1))
qed

lemma levels_in_order:
  assumes "gs \<noteq> []"
  shows "\<exists>a b c d e. map (quantile gs) levels = [Some a, Some b, Some c, Some d, Some e] \<and>
           a \<le> b \<and> b \<le> c \<and> c \<le> d \<and> d \<le> e"
proof -
  from quantile_Some [OF assms] obtain a b c d e where
    q: "quantile gs 0 = Some a" "quantile gs (1 / 4) = Some b" "quantile gs (1 / 2) = Some c"
       "quantile gs (3 / 4) = Some d" "quantile gs 1 = Some e"
    by metis
  have "a \<le> b" by (rule quantile_mono [OF assms _ _ _ q(1) q(2)]) simp_all
  moreover have "b \<le> c" by (rule quantile_mono [OF assms _ _ _ q(2) q(3)]) simp_all
  moreover have "c \<le> d" by (rule quantile_mono [OF assms _ _ _ q(3) q(4)]) simp_all
  moreover have "d \<le> e" by (rule quantile_mono [OF assms _ _ _ q(4) q(5)]) simp_all
  ultimately show ?thesis
    using q by (simp add: levels_def)
qed

lemma two_columns_lengths:
  assumes "columns d = [(n1, ks), (n2, vs)]" and "wf_frame d"
  shows "length ks = length (index d)" and "length vs = length (index d)"
  using assms by (simp_all add: wf_frame_def)

text \<open>
  C3 as it is written, for every table of two columns: false for a table whose index is
  named \<^verbatim>\<open>date_field\<close>, the label that boxplot gives the first column of its copy. For
  the table \<open>ex_box_key\<close>, two columns of five rows, the second of numbers, the grouping
  is refused as ambiguous between the index and the column: boxplot raises ValueError, no
  quantile has been computed and no series is attached.
\<close>

theorem ex_box_key_not_grouped:
  "length (columns ex_box_key) = 2 \<and> wf_frame ex_box_key \<and>
   list_all is_Num (snd (columns ex_box_key ! 1)) \<and>
   index_name ex_box_key = Some ''date_field'' \<and>
   fst (boxplot 0 ''y'' ''t'' 2 ''Date'' 900 700 ex_str (ex_heap ex_box_key)) =
     Raised ValueError (Highchart 900 700) \<and>
   attached (fst (boxplot 0 ''y'' ''t'' 2 ''Date'' 900 700 ex_str (ex_heap ex_box_key))) = []"
  by code_simp

text \<open>
  C3, amended. For a table of two columns, the second of numbers, whose index is not named
  \<^verbatim>\<open>date_field\<close> or \<^verbatim>\<open>column_1\<close>, boxplot returns a chart with one series that has one
  row for each distinct value of the first column, in ascending order of the keys: the
  key, then the five quantiles of the values of the rows that carry that key and of no
  others. For every such key the five quantiles are numbers and in order: quantile\_0
  \<open>\<le>\<close> quantile\_25 \<open>\<le>\<close> quantile\_50 \<open>\<le>\<close> quantile\_75 \<open>\<le>\<close> quantile\_100.
\<close>

theorem boxplot_quantiles_in_order:
  assumes "columns (objs h tbl) = [(n1, ks), (n2, vs)]" and "wf_frame (objs h tbl)"
    and "list_all is_Num vs"
    and "index_name (objs h tbl) \<noteq> Some ''date_field''"
    and "index_name (objs h tbl) \<noteq> Some ''column_1''"
  shows
    "\<exists>H s K. fst (boxplot tbl y_name title num_decimals x_name figsize_x figsize_y py_str h) =
               Returned H \<and>
       data_temp H = [s] \<and> sdata s = map (box_row ks vs) K \<and>
       distinct K \<and> set K = set ks \<and> sorted (map cell_key K) \<and>
       (\<forall>k\<in>set ks. \<exists>a b c d e.
          map (quantile (group_values ks vs k)) levels = [Some a, Some b, Some c, Some d, Some e] \<and>
          a \<le> b \<and> b \<le> c \<and> c \<le> d \<and> d \<le> e)"
proof -
  note len = two_columns_lengths [OF assms(1,2)]
  let ?perm = "row_order (length (index (objs h tbl))) vs"
  let ?K = "group_keys (map ((!) ks) ?perm)"
  have "mset (map ((!) ks) ?perm) = mset ks"
    using mset_row_order len(1) by (intro mset_reordered) simp
  then have "set (map ((!) ks) ?perm) = set ks"
    by (rule mset_eq_setD)
  with group_keys_props [of "map ((!) ks) ?perm"]
  have K: "distinct ?K" "set ?K = set ks" "sorted (map cell_key ?K)"
    by simp_all
  have order: "\<exists>a b c d e.
          map (quantile (group_values ks vs k)) levels = [Some a, Some b, Some c, Some d, Some e] \<and>
          a \<le> b \<and> b \<le> c \<and> c \<le> d \<and> d \<le> e" if "k \<in> set ks" for k
    using that len by (intro levels_in_order group_values_nonempty) simp_all
  have "fst (boxplot tbl y_name title num_decimals x_name figsize_x figsize_y py_str h) =
          Returned (put_options
       (boxplot_options py_str (float_val (py_round (column_mean vs) num_decimals)) y_name title
          num_decimals x_name)
       (add_data_set (map (box_row ks vs) ?K) ''boxplot'' y_name
          [(''tooltip'', PDict [(''headerFormat'', PStr ''<em>Date {point.key}</em><br/>'')])]
          (Highchart figsize_x figsize_y)))"
    by (rule boxplot_fst [OF assms(1,3) len assms(4,5)])
  then have "\<exists>H s. fst (boxplot tbl y_name title num_decimals x_name figsize_x figsize_y py_str h) =
               Returned H \<and> data_temp H = [s] \<and> sdata s = map (box_row ks vs) ?K"
    by (simp add: put_options_def add_data_set_def Highchart_def)
  with K order show ?thesis
    by blast
qed

theorem boxplot_quantiles_in_order_witness:
  "columns (objs (ex_heap ex_box) 0) =
     [(''day'', [Stamp 2, Stamp 1, Stamp 2, Stamp 1, Stamp 2]),
      (''value'', [Num 5, Num 4, Num 6, Num 10, Num 1])] \<and>
   wf_frame (objs (ex_heap ex_box) 0) \<and>
   list_all is_Num [Num 5, Num 4, Num 6, Num 10, Num 1] \<and>
   index_name (objs (ex_heap ex_box) 0) \<noteq> Some ''date_field'' \<and>
   index_name (objs (ex_heap ex_box) 0) \<noteq> Some ''column_1'' \<and>
   (\<exists>H s K. fst (boxplot 0 ''y'' ''t'' 2 ''Date'' 900 700 ex_str (ex_heap ex_box)) = Returned H \<and>
      data_temp H = [s] \<and>
      sdata s = map (box_row [Stamp 2, Stamp 1, Stamp 2, Stamp 1, Stamp 2]
                             [Num 5, Num 4, Num 6, Num 10, Num 1]) K \<and>
      set K = {Stamp 1, Stamp 2}) \<and>
   box_row [Stamp 2, Stamp 1, Stamp 2, Stamp 1, Stamp 2] [Num 5, Num 4, Num 6, Num 10, Num 1]
     (Stamp 1) = [PTimestamp 1, PNum 4, PNum (11 / 2), PNum 7, PNum (17 / 2), PNum 10] \<and>
   box_row [Stamp 2, Stamp 1, Stamp 2, Stamp 1, Stamp 2] [Num 5, Num 4, Num 6, Num 10, Num 1]
     (Stamp 2) = [PTimestamp 2, PNum 1, PNum 3, PNum 5, PNum (11 / 2), PNum 6]"
proof -
  have cols: "columns (objs (ex_heap ex_box) 0) =
     [(''day'', [Stamp 2, Stamp 1, Stamp 2, Stamp 1, Stamp 2]),
      (''value'', [Num 5, Num 4, Num 6, Num 10, Num 1])]"
    by (simp add: ex_heap_def ex_box_def)
  have wf: "wf_frame (objs (ex_heap ex_box) 0)"
    by (simp add: ex_heap_def ex_box_def wf_frame_def RangeIndex_def)
  have num: "list_all is_Num [Num 5, Num 4, Num 6, Num 10, Num 1]"
    by simp
  have name: "index_name (objs (ex_heap ex_box) 0) \<noteq> Some ''date_field''"
    "index_name (objs (ex_heap ex_box) 0) \<noteq> Some ''column_1''"
    by (simp_all add: ex_heap_def ex_box_def)
  have row1: "box_row [Stamp 2, Stamp 1, Stamp 2, Stamp 1, Stamp 2] [Num 5, Num 4, Num 6, Num 10, Num 1]
     (Stamp 1) = [PTimestamp 1, PNum 4, PNum (11 / 2), PNum 7, PNum (17 / 2), PNum 10]"
    by code_simp
  have row2: "box_row [Stamp 2, Stamp 1, Stamp 2, Stamp 1, Stamp 2] [Num 5, Num 4, Num 6, Num 10, Num 1]
     (Stamp 2) = [PTimestamp 2, PNum 1, PNum 3, PNum 5, PNum (11 / 2), PNum 6]"
    by code_simp
  from boxplot_quantiles_in_order [OF cols wf num name,
      of "''y''" "''t''" 2 "''Date''" 900 700 ex_str]
  obtain H s K where
    "fst (boxplot 0 ''y'' ''t'' 2 ''Date'' 900 700 ex_str (ex_heap ex_box)) = Returned H"
    "data_temp H = [s]"
    "sdata s = map (box_row [Stamp 2, Stamp 1, Stamp 2, Stamp 1, Stamp 2]
                             [Num 5, Num 4, Num 6, Num 10, Num 1]) K"
    "set K = set [Stamp 2, Stamp 1, Stamp 2, Stamp 1, Stamp 2]"
    by blast
  moreover have "set [Stamp 2, Stamp 1, Stamp 2, Stamp 1, Stamp 2] = {Stamp 1, Stamp 2}"
    by auto
  ultimately show ?thesis
    using cols wf num name row1 row2 by metis
qed

section \<open>The mean line of boxplot\<close>

lemma rint_near: "\<bar>of_int (rint x) - x\<bar> \<le> 1 / 2"
proof -
  have "of_int \<lfloor>x\<rfloor> \<le> x" and "x < of_int \<lfloor>x\<rfloor> + 1"
    by linarith+
  then show ?thesis
    unfolding rint_def Let_def by (auto simp: abs_le_iff)
qed

lemma round_decimals_near:
  assumes "0 \<le> n"
  shows "\<exists>z::int. round_decimals x n * 10 ^ nat n = of_int z"
    and "\<bar>round_decimals x n - x\<bar> \<le> 1 / (2 * 10 ^ nat n)"
proof -
  let ?p = "10 ^ nat n :: rat"
  have pos: "0 < ?p" by simp
  from assms have rd: "round_decimals x n = of_int (rint (x * ?p)) / ?p"
    by (simp add: round_decimals_def)
  then have "round_decimals x n * ?p = of_int (rint (x * ?p))"
    by simp
  then show "\<exists>z::int. round_decimals x n * 10 ^ nat n = of_int z"
    by blast
  have "round_decimals x n - x = (of_int (rint (x * ?p)) - x * ?p) / ?p"
    unfolding rd by (simp add: diff_divide_distrib)
  then have "\<bar>round_decimals x n - x\<bar> = \<bar>of_int (rint (x * ?p)) - x * ?p\<bar> / ?p"
    by (simp add: abs_divide)
  also have "\<dots> \<le> (1 / 2) / ?p"
    using rint_near [of "x * ?p"] pos by (rule divide_right_mono [OF _ less_imp_le])
  finally show "\<bar>round_decimals x n - x\<bar> \<le> 1 / (2 * 10 ^ nat n)"
    by simp
qed

lemma boxplot_options_mean:
  "get_path [Key ''yAxis'', Key ''plotLines'', Idx 0, Key ''value'']
     (PDict (boxplot_options py_str mean y_name title num_decimals x_name)) = Some mean"
  "get_path [Key ''yAxis'', Key ''plotLines'', Idx 0, Key ''label'', Key ''text'']
     (PDict (boxplot_options py_str mean y_name title num_decimals x_name)) =
     Some (PStr (mean_label py_str mean))"
  by (simp_all add: boxplot_options_def)

text \<open>
  C4 as it is written, for every table of two columns: false for a table whose index is
  named \<^verbatim>\<open>column_1\<close>, the label that boxplot gives the second column of its copy. For
  the table \<open>ex_box_value\<close>, two columns of five rows, the second of numbers, the sort by
  that label is refused as ambiguous between the index and the column: boxplot raises
  ValueError before the mean is taken, and no plot line is drawn.
\<close>

theorem ex_box_value_no_mean_line:
  "length (columns ex_box_value) = 2 \<and> wf_frame ex_box_value \<and>
   list_all is_Num (snd (columns ex_box_value ! 1)) \<and>
   index_name ex_box_value = Some ''column_1'' \<and>
   fst (boxplot 0 ''y'' ''t'' 2 ''Date'' 900 700 ex_str (ex_heap ex_box_value)) =
     Raised ValueError (Highchart 900 700) \<and>
   option_at [Key ''yAxis'', Key ''plotLines'', Idx 0, Key ''value'']
     (fst (boxplot 0 ''y'' ''t'' 2 ''Date'' 900 700 ex_str (ex_heap ex_box_value))) = None"
  by code_simp

text \<open>
  C4, amended. For a table of two columns, the second of numbers, whose index is not named
  \<^verbatim>\<open>date_field\<close> or \<^verbatim>\<open>column_1\<close>, the value of the plot line that
  boxplot draws on the y-axis is the mean of the whole second column, all groups
  together, rounded with \<^verbatim>\<open>num_decimals\<close>, and the text of the line's label is
  \<^verbatim>\<open>Mean: \<close> followed by Python's rendering of that same rounded value. For a column that
  is not empty the mean is the sum of the values over their number; for
  \<^verbatim>\<open>num_decimals\<close> \<open>\<ge> 0\<close> the rounded value has at most that many decimal places and is
  within half a unit of the last place of the mean.
\<close>

theorem boxplot_mean_line:
  assumes "columns (objs h tbl) = [(n1, ks), (n2, vs)]" and "wf_frame (objs h tbl)"
    and "list_all is_Num vs"
    and "index_name (objs h tbl) \<noteq> Some ''date_field''"
    and "index_name (objs h tbl) \<noteq> Some ''column_1''"
  shows
    "option_at [Key ''yAxis'', Key ''plotLines'', Idx 0, Key ''value'']
       (fst (boxplot tbl y_name title num_decimals x_name figsize_x figsize_y py_str h)) =
       Some (float_val (py_round (column_mean vs) num_decimals)) \<and>
     option_at [Key ''yAxis'', Key ''plotLines'', Idx 0, Key ''label'', Key ''text'']
       (fst (boxplot tbl y_name title num_decimals x_name figsize_x figsize_y py_str h)) =
       Some (PStr (''Mean: '' @ py_str (float_val (py_round (column_mean vs) num_decimals)) @ ''  '')) \<and>
     (vs \<noteq> [] \<longrightarrow>
        float_val (py_round (column_mean vs) num_decimals) =
          PNum (round_decimals (sum_list (map cell_key vs) / of_nat (length vs)) num_decimals)) \<and>
     (0 \<le> num_decimals \<longrightarrow>
        (\<exists>z::int. round_decimals (sum_list (map cell_key vs) / of_nat (length vs)) num_decimals
                     * 10 ^ nat num_decimals = of_int z) \<and>
        \<bar>round_decimals (sum_list (map cell_key vs) / of_nat (length vs)) num_decimals
           - sum_list (map cell_key vs) / of_nat (length vs)\<bar> \<le> 1 / (2 * 10 ^ nat num_decimals))"
proof -
  note len = two_columns_lengths [OF assms(1,2)]
  let ?v = "float_val (py_round (column_mean vs) num_decimals)"
  have "option_at [Key ''yAxis'', Key ''plotLines'', Idx 0, Key ''value'']
            (fst (boxplot tbl y_name title num_decimals x_name figsize_x figsize_y py_str h)) =
            Some ?v"
    unfolding boxplot_fst [OF assms(1,3) len assms(4,5)]
    by (simp add: option_at_def put_options_def boxplot_options_mean del: get_path.simps)
  moreover have "option_at [Key ''yAxis'', Key ''plotLines'', Idx 0, Key ''label'', Key ''text'']
            (fst (boxplot tbl y_name title num_decimals x_name figsize_x figsize_y py_str h)) =
            Some (PStr (''Mean: '' @ py_str ?v @ ''  ''))"
    unfolding boxplot_fst [OF assms(1,3) len assms(4,5)]
    by (simp add: option_at_def put_options_def boxplot_options_mean mean_label_def
          del: get_path.simps)
  moreover have "vs \<noteq> [] \<longrightarrow> ?v =
          PNum (round_decimals (sum_list (map cell_key vs) / of_nat (length vs)) num_decimals)"
    by (simp add: column_mean_def py_round_def)
  ultimately show ?thesis
    using round_decimals_near [of num_decimals "sum_list (map cell_key vs) / of_nat (length vs)"]
    by blast
qed

theorem boxplot_mean_line_witness:
  "columns (objs (ex_heap ex_box) 0) =
     [(''day'', [Stamp 2, Stamp 1, Stamp 2, Stamp 1, Stamp 2]),
      (''value'', [Num 5, Num 4, Num 6, Num 10, Num 1])] \<and>
   wf_frame (objs (ex_heap ex_box) 0) \<and>
   list_all is_Num [Num 5, Num 4, Num 6, Num 10, Num 1] \<and>
   index_name (objs (ex_heap ex_box) 0) \<noteq> Some ''date_field'' \<and>
   index_name (objs (ex_heap ex_box) 0) \<noteq> Some ''column_1'' \<and>
   option_at [Key ''yAxis'', Key ''plotLines'', Idx 0, Key ''value'']
     (fst (boxplot 0 ''y'' ''t'' 2 ''Date'' 900 700 ex_str (ex_heap ex_box))) =
     Some (PNum (26 / 5)) \<and>
   option_at [Key ''yAxis'', Key ''plotLines'', Idx 0, Key ''label'', Key ''text'']
     (fst (boxplot 0 ''y'' ''t'' 2 ''Date'' 900 700 ex_str (ex_heap ex_box))) =
     Some (PStr ''Mean: 5.2  '')"
proof -
  have cols: "columns (objs (ex_heap ex_box) 0) =
     [(''day'', [Stamp 2, Stamp 1, Stamp 2, Stamp 1, Stamp 2]),
      (''value'', [Num 5, Num 4, Num 6, Num 10, Num 1])]"
    by (simp add: ex_heap_def ex_box_def)
  have wf: "wf_frame (objs (ex_heap ex_box) 0)"
    by (simp add: ex_heap_def ex_box_def wf_frame_def RangeIndex_def)
  have num: "list_all is_Num [Num 5, Num 4, Num 6, Num 10, Num 1]"
    and ne: "[Num 5, Num 4, Num 6, Num 10, Num 1] \<noteq> []" and dec: "(0::int) \<le> 2"
    by simp_all
  have name: "index_name (objs (ex_heap ex_box) 0) \<noteq> Some ''date_field''"
    "index_name (objs (ex_heap ex_box) 0) \<noteq> Some ''column_1''"
    by (simp_all add: ex_heap_def ex_box_def)
  have m: "round_decimals (26 / 5) 2 = 26 / 5"
    by code_simp
  have str: "ex_str (PNum (26 / 5)) = ''5.2''"
    by (simp add: ex_str_def)
  have mean: "sum_list (map cell_key [Num 5, Num 4, Num 6, Num 10, Num 1]) /
               of_nat (length [Num 5, Num 4, Num 6, Num 10, Num 1]) = (26 / 5 :: rat)"
    by simp
  note t = boxplot_mean_line [OF cols wf num name,
      of "''y''" "''t''" 2 "''Date''" 900 700 ex_str]
  from t ne have "float_val (py_round (column_mean [Num 5, Num 4, Num 6, Num 10, Num 1]) 2) =
      PNum (round_decimals (sum_list (map cell_key [Num 5, Num 4, Num 6, Num 10, Num 1]) /
               of_nat (length [Num 5, Num 4, Num 6, Num 10, Num 1])) 2)"
    by blast
  then have v: "float_val (py_round (column_mean [Num 5, Num 4, Num 6, Num 10, Num 1]) 2) =
      PNum (26 / 5)"
    by (simp only: mean m)
  from t have
    "option_at [Key ''yAxis'', Key ''plotLines'', Idx 0, Key ''value'']
       (fst (boxplot 0 ''y'' ''t'' 2 ''Date'' 900 700 ex_str (ex_heap ex_box))) =
       Some (float_val (py_round (column_mean [Num 5, Num 4, Num 6, Num 10, Num 1]) 2))"
    "option_at [Key ''yAxis'', Key ''plotLines'', Idx 0, Key ''label'', Key ''text'']
       (fst (boxplot 0 ''y'' ''t'' 2 ''Date'' 900 700 ex_str (ex_heap ex_box))) =
       Some (PStr (''Mean: '' @
         ex_str (float_val (py_round (column_mean [Num 5, Num 4, Num 6, Num 10, Num 1]) 2)) @ ''  ''))"
    by blast+
  with v str cols wf num name show ?thesis
    by simp
qed

end
